theory Spec2Isabelle
  imports Main
begin

section \<open>The chat widget of src/index.tsx (component NeoKunChat)\<close>

text \<open>
  The component keeps its data in React state cells and changes them only through the
  setters. A handler reads the cells through the closure of the render it belongs to and
  calls setters; it runs synchronously up to an \<^verbatim>\<open>await\<close> and is resumed when the awaited
  promise settles. The embedding follows that shape:
  \<^item> the state cells are a record;
  \<^item> a handler is a function from the closure's snapshot of the cells to the list of
    effects it performs, in source order (setter calls and calls to the two providers), and
    to the place where it stops (returned, or suspended at an \<^verbatim>\<open>await\<close>);
  \<^item> the setters' updaters are applied to the cells in the order the calls were made;
  \<^item> what the outside world answers (does the SDK constructor throw, does a promise
    resolve or reject, what JSON comes back) is an argument.
  Strings are lists of characters standing for code units below 256.
\<close>

subsection \<open>Messages and component state\<close>

datatype role = User | Model

datatype feedback = Up | Down

record message =
  role :: role
  "text" :: string
  feedback :: "feedback option"

text \<open>The SDK's \<^verbatim>\<open>Chat\<close> object is opaque: only its presence is ever tested.\<close>

datatype chat = Chat

record state =
  messages :: "message list"
  input :: string
  isTyping :: bool
  chatClient :: "chat option"
  isBackupActive :: bool

text \<open>
  \<^verbatim>\<open>process.env.API_KEY\<close> and the system prompt constant. The prompt is a long template
  literal whose content no operation inspects; it is carried as a configuration string.
\<close>

record config =
  API_KEY :: "string option"
  NEO_KUN_SYSTEM_PROMPT :: string

subsection \<open>JavaScript primitives used by the handlers\<close>

text \<open>Truthiness of a value of type \<^verbatim>\<open>string | undefined\<close>.\<close>

fun truthy :: "string option \<Rightarrow> bool" where
  "truthy None = False"
| "truthy (Some s) = (s \<noteq> [])"

text \<open>\<^verbatim>\<open>v || ""\<close> for \<^verbatim>\<open>v : string | undefined\<close>.\<close>

fun or_empty :: "string option \<Rightarrow> string" where
  "or_empty None = []"
| "or_empty (Some s) = s"

text \<open>
  \<^verbatim>\<open>String.prototype.trim\<close>: white space and line terminators are removed at both ends.
  Below 256 these are TAB, LF, VT, FF, CR, SPACE and NBSP.
\<close>

definition WhiteSpace :: "char \<Rightarrow> bool" where
  "WhiteSpace c \<longleftrightarrow>
     c \<in> {CHR 0x09, CHR 0x0A, CHR 0x0B, CHR 0x0C, CHR 0x0D, CHR 0x20, CHR 0xA0}"

definition trim :: "string \<Rightarrow> string" where
  "trim s = rev (dropWhile WhiteSpace (rev (dropWhile WhiteSpace s)))"

subsection \<open>Effects, errors and suspension points\<close>

text \<open>One entry of the \<^verbatim>\<open>messages\<close> array in the body of the OpenRouter request.\<close>

record entry =
  entry_role :: string
  content :: string

datatype effect =
    SetInput string
  | AppendMessage message
  | MapFeedback int feedback
  | SetIsTyping bool
  | SetChatClient chat
  | SetIsBackupActive bool
  | CreateChat
  | SendMessage string
  | Fetch "entry list"

text \<open>
  \<^verbatim>\<open>AppendMessage m\<close> is \<^verbatim>\<open>setMessages(prev => [...prev, m])\<close>, \<^verbatim>\<open>MapFeedback\<close> is the
  \<^verbatim>\<open>setMessages(prev => prev.map(...))\<close> of \<^verbatim>\<open>handleFeedback\<close>. \<^verbatim>\<open>CreateChat\<close> is
  \<^verbatim>\<open>new GoogleGenAI(...)\<close> followed by \<^verbatim>\<open>ai.chats.create(CHAT_CONFIG)\<close>, \<^verbatim>\<open>SendMessage\<close> the
  call \<^verbatim>\<open>currentChat.sendMessage({ message })\<close> and \<^verbatim>\<open>Fetch\<close> the POST of
  \<^verbatim>\<open>callOpenRouter\<close> with the \<^verbatim>\<open>messages\<close> of its body.
\<close>

text \<open>
  What \<^verbatim>\<open>callOpenRouter\<close> throws: the rejection of \<^verbatim>\<open>fetch\<close>, the error raised for a
  response that is not ok, the rejection of \<^verbatim>\<open>response.json()\<close>, and the type error of
  reading a member of \<^verbatim>\<open>null\<close>. The handlers only test that something was thrown.
\<close>

datatype error = NetworkError | ApiError | JsonError | TypeError

text \<open>
  Where a handler call stands: finished (it returned, \<^verbatim>\<open>Inr ()\<close>, or threw, \<^verbatim>\<open>Inl e\<close>),
  or suspended at \<^verbatim>\<open>await currentChat.sendMessage\<close>, or suspended inside
  \<^verbatim>\<open>await callOpenRouter\<close>.
\<close>

datatype control = Done "error + unit" | AwaitSendMessage | AwaitFetch

subsection \<open>What the providers answer\<close>

datatype sendMessage_outcome = SendRejected | SendResolved "string option"

text \<open>
  The JSON of an OpenRouter response as far as \<^verbatim>\<open>data.choices?.[0]?.message?.content\<close>
  reads it: \<^verbatim>\<open>null\<close>, or a value whose members may each be missing.
\<close>

datatype or_message = OrMessage "string option"

datatype or_choice = OrChoice "or_message option"

datatype or_data = OrNull | OrData "or_choice list option"

datatype json_outcome = JsonRejected | JsonResolved or_data

datatype fetch_outcome = FetchRejected | Response bool json_outcome

record world =
  createOk :: bool
  sendMessage :: sendMessage_outcome
  fetch :: fetch_outcome

subsection \<open>Applying setter calls\<close>

text \<open>The updater of \<^verbatim>\<open>handleFeedback\<close> (lines 1589-1591).\<close>

definition feedback_updater :: "int \<Rightarrow> feedback \<Rightarrow> message list \<Rightarrow> message list" where
  "feedback_updater index type' prev =
     map (\<lambda>(i, msg).
            if int i = index
            then msg\<lparr>feedback := (if feedback msg = Some type' then None else Some type')\<rparr>
            else msg)
         (enumerate 0 prev)"

fun apply_effect :: "effect \<Rightarrow> state \<Rightarrow> state" where
  "apply_effect (SetInput s) st = st\<lparr>input := s\<rparr>"
| "apply_effect (AppendMessage m) st = st\<lparr>messages := messages st @ [m]\<rparr>"
| "apply_effect (MapFeedback i t) st = st\<lparr>messages := feedback_updater i t (messages st)\<rparr>"
| "apply_effect (SetIsTyping b) st = st\<lparr>isTyping := b\<rparr>"
| "apply_effect (SetChatClient c) st = st\<lparr>chatClient := Some c\<rparr>"
| "apply_effect (SetIsBackupActive b) st = st\<lparr>isBackupActive := b\<rparr>"
| "apply_effect CreateChat st = st"
| "apply_effect (SendMessage s) st = st"
| "apply_effect (Fetch r) st = st"

fun apply_effects :: "effect list \<Rightarrow> state \<Rightarrow> state" where
  "apply_effects [] st = st"
| "apply_effects (e # es) st = apply_effects es (apply_effect e st)"

subsection \<open>handleFeedback (lines 1588-1592)\<close>

definition handleFeedback :: "int \<Rightarrow> feedback \<Rightarrow> effect list \<times> (error + unit)" where
  "handleFeedback index type' = ([MapFeedback index type'], Inr ())"

text \<open>The cells after a click on a feedback button.\<close>

definition setFeedback :: "int \<Rightarrow> feedback \<Rightarrow> state \<Rightarrow> state" where
  "setFeedback index type' st = apply_effects (fst (handleFeedback index type')) st"

subsection \<open>callOpenRouter (lines 1419-1453)\<close>

definition request_messages :: "config \<Rightarrow> message list \<Rightarrow> entry list" where
  "request_messages cfg history =
     \<lparr>entry_role = ''system'', content = NEO_KUN_SYSTEM_PROMPT cfg\<rparr> #
     map (\<lambda>m. \<lparr>entry_role = (if role m = Model then ''assistant'' else ''user''),
                content = text m\<rparr>) history"

text \<open>\<^verbatim>\<open>data.choices?.[0]?.message?.content\<close>; reading a member of \<^verbatim>\<open>null\<close> throws.\<close>

fun first_content :: "or_data \<Rightarrow> error + string option" where
  "first_content OrNull = Inl TypeError"
| "first_content (OrData None) = Inr None"
| "first_content (OrData (Some [])) = Inr None"
| "first_content (OrData (Some (OrChoice None # cs))) = Inr None"
| "first_content (OrData (Some (OrChoice (Some (OrMessage c)) # cs))) = Inr c"

text \<open>
  A JSON value other than \<^verbatim>\<open>null\<close> that carries no text: no \<^verbatim>\<open>choices\<close>, an empty
  \<^verbatim>\<open>choices\<close>, a first choice without \<^verbatim>\<open>message\<close>, a message without
  \<^verbatim>\<open>content\<close>, or an empty content.
\<close>

fun no_content :: "or_data \<Rightarrow> bool" where
  "no_content OrNull = False"
| "no_content (OrData None) = True"
| "no_content (OrData (Some [])) = True"
| "no_content (OrData (Some (OrChoice None # cs))) = True"
| "no_content (OrData (Some (OrChoice (Some (OrMessage None)) # cs))) = True"
| "no_content (OrData (Some (OrChoice (Some (OrMessage (Some s))) # cs))) = (s = [])"

fun callOpenRouter_result :: "fetch_outcome \<Rightarrow> error + string" where
  "callOpenRouter_result FetchRejected = Inl NetworkError"
| "callOpenRouter_result (Response ok j) =
     (if \<not> ok then Inl ApiError
      else case j of
             JsonRejected \<Rightarrow> Inl JsonError
           | JsonResolved data \<Rightarrow>
               (case first_content data of
                  Inl e \<Rightarrow> Inl e
                | Inr c \<Rightarrow> Inr (or_empty c)))"

text \<open>The request the call sends (lines 1421-1441).\<close>

definition callOpenRouter_request :: "message list \<Rightarrow> config \<Rightarrow> effect" where
  "callOpenRouter_request history cfg = Fetch (request_messages cfg history)"

subsection \<open>handleSendMessage (lines 1594-1647)\<close>

definition user_message :: "string \<Rightarrow> message" where
  "user_message s = \<lparr>role = User, text = s, feedback = None\<rparr>"

definition model_message :: "string \<Rightarrow> message" where
  "model_message s = \<lparr>role = Model, text = s, feedback = None\<rparr>"

definition key_missing_text :: string where
  "key_missing_text = ''Error: API Key missing. Please check configuration.''"

definition glitch_text :: string where
  "glitch_text = ''System glitch. Both primary and backup lines are unstable.''"

text \<open>
  The \<^verbatim>\<open>catch (error)\<close> block up to its \<^verbatim>\<open>await\<close> (lines 1631-1638): the flag is set and
  the history is built from the closure's \<^verbatim>\<open>messages\<close>.
\<close>

definition catch_primary :: "config \<Rightarrow> state \<Rightarrow> effect list \<times> control" where
  "catch_primary cfg snap =
     ([SetIsBackupActive True,
       callOpenRouter_request (messages snap @ [user_message (input snap)]) cfg],
      AwaitFetch)"

text \<open>
  The self-healing block (lines 1608-1619): the chat of the closure, or a new one; a
  constructor that throws is caught and leaves \<^verbatim>\<open>currentChat\<close> null.
\<close>

definition recreate_chat :: "bool \<Rightarrow> state \<Rightarrow> chat option \<times> effect list" where
  "recreate_chat create_ok snap =
     (case chatClient snap of
        Some c \<Rightarrow> (Some c, [])
      | None \<Rightarrow>
          if create_ok then (Some Chat, [CreateChat, SetChatClient Chat])
          else (None, [CreateChat]))"

text \<open>From the call of the handler to its first \<^verbatim>\<open>await\<close> or return (lines 1595-1638).\<close>

definition handleSendMessage_start :: "config \<Rightarrow> bool \<Rightarrow> state \<Rightarrow> effect list \<times> control" where
  "handleSendMessage_start cfg create_ok snap =
     (if trim (input snap) = [] then ([], Done (Inr ()))
      else if \<not> truthy (API_KEY cfg)
      then ([AppendMessage (model_message key_missing_text)], Done (Inr ()))
      else
        let userMsg = input snap;
            es1 = [SetInput [], AppendMessage (user_message userMsg), SetIsTyping True];
            (currentChat, es2) = recreate_chat create_ok snap
        in if currentChat \<noteq> None \<and> \<not> isBackupActive snap
           then (es1 @ es2 @ [SendMessage userMsg], AwaitSendMessage)
           else (es1 @ es2 @ fst (catch_primary cfg snap), snd (catch_primary cfg snap)))"

text \<open>Resumption when \<^verbatim>\<open>sendMessage\<close> settles (lines 1624-1626, or the catch block).\<close>

fun handleSendMessage_sent ::
  "config \<Rightarrow> state \<Rightarrow> sendMessage_outcome \<Rightarrow> effect list \<times> control" where
  "handleSendMessage_sent cfg snap (SendResolved response) =
     ([AppendMessage (model_message (or_empty response)), SetIsTyping False], Done (Inr ()))"
| "handleSendMessage_sent cfg snap SendRejected = catch_primary cfg snap"

text \<open>Resumption when \<^verbatim>\<open>callOpenRouter\<close> settles (lines 1639-1646).\<close>

definition handleSendMessage_fetched ::
  "fetch_outcome \<Rightarrow> effect list \<times> control" where
  "handleSendMessage_fetched out =
     (case callOpenRouter_result out of
        Inr responseText \<Rightarrow>
          ([AppendMessage (model_message responseText), SetIsTyping False], Done (Inr ()))
      | Inl backupError \<Rightarrow>
          ([AppendMessage (model_message glitch_text), SetIsTyping False], Done (Inr ())))"

text \<open>
  One call of the handler running alone until its promise settles: the effects in order
  and the way the promise settles.
\<close>

definition resume_fetch :: "world \<Rightarrow> effect list \<times> control \<Rightarrow> effect list \<times> control" where
  "resume_fetch w r =
     (case snd r of
        AwaitFetch \<Rightarrow>
          (fst r @ fst (handleSendMessage_fetched (fetch w)),
           snd (handleSendMessage_fetched (fetch w)))
      | _ \<Rightarrow> r)"

definition resume_sendMessage ::
  "config \<Rightarrow> world \<Rightarrow> state \<Rightarrow> effect list \<times> control \<Rightarrow> effect list \<times> control" where
  "resume_sendMessage cfg w snap r =
     (case snd r of
        AwaitSendMessage \<Rightarrow>
          (fst r @ fst (handleSendMessage_sent cfg snap (sendMessage w)),
           snd (handleSendMessage_sent cfg snap (sendMessage w)))
      | _ \<Rightarrow> r)"

definition handleSendMessage :: "config \<Rightarrow> world \<Rightarrow> state \<Rightarrow> effect list \<times> control" where
  "handleSendMessage cfg w snap =
     resume_fetch w
       (resume_sendMessage cfg w snap (handleSendMessage_start cfg (createOk w) snap))"

text \<open>
  The catch block run to the end of the handler: its effects up to the \<^verbatim>\<open>await\<close>, then
  those of the resumption for the world's answer.
\<close>

definition catch_run :: "config \<Rightarrow> world \<Rightarrow> state \<Rightarrow> effect list" where
  "catch_run cfg w snap =
     fst (catch_primary cfg snap) @ fst (handleSendMessage_fetched (fetch w))"

text \<open>The cells after the call, the handler having read them as they were before it.\<close>

definition send :: "config \<Rightarrow> world \<Rightarrow> state \<Rightarrow> state" where
  "send cfg w st = apply_effects (fst (handleSendMessage cfg w st)) st"

text \<open>The cells of a freshly mounted component (the \<^verbatim>\<open>useState\<close> defaults, lines 1535-1541).\<close>

definition initial :: state where
  "initial = \<lparr>messages = [], input = [], isTyping = False, chatClient = None,
               isBackupActive = False\<rparr>"

text \<open>
  The Primary attempt of a send fails: no chat in the closure and the constructor throws,
  or \<^verbatim>\<open>sendMessage\<close> rejects. The Backup attempt fails: \<^verbatim>\<open>callOpenRouter\<close> throws.
\<close>

definition primary_fails :: "world \<Rightarrow> state \<Rightarrow> bool" where
  "primary_fails w snap \<longleftrightarrow>
     (chatClient snap = None \<and> \<not> createOk w) \<or> sendMessage w = SendRejected"

definition backup_fails :: "world \<Rightarrow> bool" where
  "backup_fails w \<longleftrightarrow> isl (callOpenRouter_result (fetch w))"

subsection \<open>A session of sends, each issued after the previous one has settled\<close>

text \<open>
  One turn: the user types a text (\<^verbatim>\<open>onChange\<close> calls \<^verbatim>\<open>setInput\<close>), then presses Enter or
  the send button; \<^verbatim>\<open>answers\<close> is what the providers do during that send.
\<close>

record turn =
  typed :: string
  answers :: world

definition turn_trace :: "config \<Rightarrow> turn \<Rightarrow> state \<Rightarrow> effect list" where
  "turn_trace cfg t st = fst (handleSendMessage cfg (answers t) (st\<lparr>input := typed t\<rparr>))"

definition take_turn :: "config \<Rightarrow> turn \<Rightarrow> state \<Rightarrow> state" where
  "take_turn cfg t st = send cfg (answers t) (st\<lparr>input := typed t\<rparr>)"

fun session :: "config \<Rightarrow> turn list \<Rightarrow> state \<Rightarrow> state" where
  "session cfg [] st = st"
| "session cfg (t # ts) st = session cfg ts (take_turn cfg t st)"

fun session_trace :: "config \<Rightarrow> turn list \<Rightarrow> state \<Rightarrow> effect list" where
  "session_trace cfg [] st = []"
| "session_trace cfg (t # ts) st = turn_trace cfg t st @ session_trace cfg ts (take_turn cfg t st)"

text \<open>The number of calls of \<^verbatim>\<open>sendMessage\<close> on the Primary provider in a trace.\<close>

fun is_SendMessage :: "effect \<Rightarrow> bool" where
  "is_SendMessage (SendMessage s) = True"
| "is_SendMessage e = False"

fun is_Fetch :: "effect \<Rightarrow> bool" where
  "is_Fetch (Fetch r) = True"
| "is_Fetch e = False"

definition primary_calls :: "effect list \<Rightarrow> nat" where
  "primary_calls es = length (filter is_SendMessage es)"

definition backup_calls :: "effect list \<Rightarrow> nat" where
  "backup_calls es = length (filter is_Fetch es)"

text \<open>Anything done towards a provider: constructing the chat, or calling either provider.\<close>

fun is_provider_call :: "effect \<Rightarrow> bool" where
  "is_provider_call CreateChat = True"
| "is_provider_call (SendMessage s) = True"
| "is_provider_call (Fetch r) = True"
| "is_provider_call e = False"

subsection \<open>The component between events: handler calls that overlap\<close>

text \<open>
  The event loop runs one piece of code at a time: an event handler up to its first
  \<^verbatim>\<open>await\<close>, or the continuation of a suspended call whose promise has settled. A handler
  invoked by an event belongs to the latest render, so its closure holds the cells as they
  are at the event; the continuation of a suspended call keeps the closure it started with.
  \<^verbatim>\<open>Submit\<close> is the Enter key or the send button (with the answer of the SDK constructor,
  should it be called), \<^verbatim>\<open>Sent k\<close> and \<^verbatim>\<open>Fetched k\<close> settle the awaited promise of the
  \<^verbatim>\<open>k\<close>-th call of \<^verbatim>\<open>handleSendMessage\<close>.
\<close>

datatype event =
    Change string
  | Submit bool
  | Click int feedback
  | Sent nat sendMessage_outcome
  | Fetched nat fetch_outcome

record call =
  closure :: state
  at :: control

record component =
  cells :: state
  calls :: "call list"

fun react :: "config \<Rightarrow> event \<Rightarrow> component \<Rightarrow> component" where
  "react cfg (Change s) c = c\<lparr>cells := apply_effect (SetInput s) (cells c)\<rparr>"
| "react cfg (Click i t) c = c\<lparr>cells := apply_effects (fst (handleFeedback i t)) (cells c)\<rparr>"
| "react cfg (Submit create_ok) c =
     (let r = handleSendMessage_start cfg create_ok (cells c)
      in \<lparr>cells = apply_effects (fst r) (cells c),
          calls = calls c @ [\<lparr>closure = cells c, at = snd r\<rparr>]\<rparr>)"
| "react cfg (Sent k out) c =
     (if k < length (calls c) \<and> at (calls c ! k) = AwaitSendMessage
      then let r = handleSendMessage_sent cfg (closure (calls c ! k)) out
           in \<lparr>cells = apply_effects (fst r) (cells c),
               calls = (calls c)[k := (calls c ! k)\<lparr>at := snd r\<rparr>]\<rparr>
      else c)"
| "react cfg (Fetched k out) c =
     (if k < length (calls c) \<and> at (calls c ! k) = AwaitFetch
      then let r = handleSendMessage_fetched out
           in \<lparr>cells = apply_effects (fst r) (cells c),
               calls = (calls c)[k := (calls c ! k)\<lparr>at := snd r\<rparr>]\<rparr>
      else c)"

fun run :: "config \<Rightarrow> event list \<Rightarrow> component \<Rightarrow> component" where
  "run cfg [] c = c"
| "run cfg (e # es) c = run cfg es (react cfg e c)"

text \<open>The effects that the code run by an event performs, \<^const>\<open>react\<close> applying them.\<close>

fun emitted :: "config \<Rightarrow> event \<Rightarrow> component \<Rightarrow> effect list" where
  "emitted cfg (Change s) c = [SetInput s]"
| "emitted cfg (Click i t) c = fst (handleFeedback i t)"
| "emitted cfg (Submit create_ok) c = fst (handleSendMessage_start cfg create_ok (cells c))"
| "emitted cfg (Sent k out) c =
     (if k < length (calls c) \<and> at (calls c ! k) = AwaitSendMessage
      then fst (handleSendMessage_sent cfg (closure (calls c ! k)) out) else [])"
| "emitted cfg (Fetched k out) c =
     (if k < length (calls c) \<and> at (calls c ! k) = AwaitFetch
      then fst (handleSendMessage_fetched out) else [])"

text \<open>A call is outstanding while it is suspended at one of its awaits.\<close>

fun suspended :: "control \<Rightarrow> bool" where
  "suspended (Done r) = False"
| "suspended AwaitSendMessage = True"
| "suspended AwaitFetch = True"

definition outstanding :: "component \<Rightarrow> nat" where
  "outstanding c = length (filter (\<lambda>k. suspended (at k)) (calls c))"

subsection \<open>Concrete configurations, answers and states used as inputs\<close>

definition with_key :: config where
  "with_key = \<lparr>API_KEY = Some ''k'', NEO_KUN_SYSTEM_PROMPT = ''persona''\<rparr>"

definition without_key :: config where
  "without_key = \<lparr>API_KEY = None, NEO_KUN_SYSTEM_PROMPT = ''persona''\<rparr>"

definition both_down :: world where
  "both_down = \<lparr>createOk = True, sendMessage = SendRejected, fetch = FetchRejected\<rparr>"

definition primary_up :: "string option \<Rightarrow> world" where
  "primary_up t = \<lparr>createOk = True, sendMessage = SendResolved t, fetch = FetchRejected\<rparr>"

definition backup_up :: "or_data \<Rightarrow> world" where
  "backup_up d =
     \<lparr>createOk = True, sendMessage = SendRejected, fetch = Response True (JsonResolved d)\<rparr>"

definition hello :: state where
  "hello = initial\<lparr>input := ''hello''\<rparr>"

definition mounted :: component where
  "mounted = \<lparr>cells = initial, calls = []\<rparr>"

definition on_backup :: state where
  "on_backup = \<lparr>messages = [user_message ''ping'', model_message ''pong''], input = ''more'',
                 isTyping = False, chatClient = Some Chat, isBackupActive = True\<rparr>"

definition pending_hello :: component where
  "pending_hello = \<lparr>cells = hello\<lparr>isTyping := True\<rparr>,
                     calls = [\<lparr>closure = hello, at = AwaitSendMessage\<rparr>]\<rparr>"

definition blank :: state where
  "blank = initial\<lparr>input := ''   ''\<rparr>"

definition answered :: state where
  "answered = initial\<lparr>messages := [user_message ''ping'', model_message ''pong'']\<rparr>"

definition rated_up :: state where
  "rated_up = initial\<lparr>messages := [(model_message ''pong'')\<lparr>feedback := Some Up\<rparr>]\<rparr>"

definition constructor_down :: world where
  "constructor_down = \<lparr>createOk = False, sendMessage = SendResolved (Some ''pong''),
                        fetch = Response True (JsonResolved (OrData None))\<rparr>"

definition after_constructor_failure :: state where
  "after_constructor_failure = (send with_key constructor_down hello)\<lparr>input := ''again''\<rparr>"

definition constructor_failing_turns :: "turn list" where
  "constructor_failing_turns = [\<lparr>typed = ''a'', answers = constructor_down\<rparr>]"

definition later_turns :: "turn list" where
  "later_turns = [\<lparr>typed = ''b'', answers = primary_up (Some ''pong'')\<rparr>,
                  \<lparr>typed = '' '', answers = primary_up None\<rparr>,
                  \<lparr>typed = ''c'', answers = both_down\<rparr>]"

definition two_pending :: component where
  "two_pending = run with_key [Change ''a'', Submit True, Change ''b'', Submit True] mounted"

section \<open>Auxiliary facts about the handlers\<close>

subsection \<open>The trace of one send\<close>

text \<open>
  The synchronous part of the handler with its \<^verbatim>\<open>let\<close> bindings unfolded, and the
  trace of a whole send in each of its three cases: blank input, no key, and the case that
  reaches the providers.
\<close>

lemma handleSendMessage_start_eq:
  "handleSendMessage_start cfg ok snap =
     (if trim (input snap) = [] then ([], Done (Inr ()))
      else if \<not> truthy (API_KEY cfg)
      then ([AppendMessage (model_message key_missing_text)], Done (Inr ()))
      else if fst (recreate_chat ok snap) \<noteq> None \<and> \<not> isBackupActive snap
      then ([SetInput [], AppendMessage (user_message (input snap)), SetIsTyping True] @
            snd (recreate_chat ok snap) @ [SendMessage (input snap)], AwaitSendMessage)
      else ([SetInput [], AppendMessage (user_message (input snap)), SetIsTyping True] @
            snd (recreate_chat ok snap) @
            [SetIsBackupActive True,
             Fetch (request_messages cfg (messages snap @ [user_message (input snap)]))],
            AwaitFetch))"
  by (simp add: handleSendMessage_start_def Let_def catch_primary_def callOpenRouter_request_def
        split: prod.splits)

lemma handleSendMessage_returns: "snd (handleSendMessage cfg w snap) = Done (Inr ())"
  by (cases "sendMessage w")
     (auto simp: handleSendMessage_def handleSendMessage_start_def resume_sendMessage_def
        resume_fetch_def catch_primary_def handleSendMessage_fetched_def Let_def
        split: prod.splits sum.splits)

lemma catch_run_eq:
  "catch_run cfg w snap =
     [SetIsBackupActive True,
      Fetch (request_messages cfg (messages snap @ [user_message (input snap)])),
      AppendMessage (model_message
         (case callOpenRouter_result (fetch w) of Inl e \<Rightarrow> glitch_text | Inr t \<Rightarrow> t)),
      SetIsTyping False]"
  by (simp add: catch_run_def catch_primary_def handleSendMessage_fetched_def
        callOpenRouter_request_def split: sum.splits)

lemma handleSendMessage_trace:
  assumes "trim (input snap) \<noteq> []" "truthy (API_KEY cfg)"
  shows "fst (handleSendMessage cfg w snap) =
     [SetInput [], AppendMessage (user_message (input snap)), SetIsTyping True] @
     snd (recreate_chat (createOk w) snap) @
     (if fst (recreate_chat (createOk w) snap) \<noteq> None \<and> \<not> isBackupActive snap
      then SendMessage (input snap) #
           (case sendMessage w of
              SendResolved t \<Rightarrow> [AppendMessage (model_message (or_empty t)), SetIsTyping False]
            | SendRejected \<Rightarrow> catch_run cfg w snap)
      else catch_run cfg w snap)"
  using assms
  by (cases "sendMessage w")
     (auto simp: handleSendMessage_def handleSendMessage_start_def resume_sendMessage_def
        resume_fetch_def catch_primary_def catch_run_def Let_def
        split: prod.splits)

lemma handleSendMessage_blank:
  "trim (input snap) = [] \<Longrightarrow> handleSendMessage cfg w snap = ([], Done (Inr ()))"
  by (simp add: handleSendMessage_def handleSendMessage_start_def
                resume_sendMessage_def resume_fetch_def)

lemma handleSendMessage_no_key:
  "trim (input snap) \<noteq> [] \<Longrightarrow> \<not> truthy (API_KEY cfg) \<Longrightarrow>
     handleSendMessage cfg w snap = ([AppendMessage (model_message key_missing_text)], Done (Inr ()))"
  by (simp add: handleSendMessage_def handleSendMessage_start_def
                resume_sendMessage_def resume_fetch_def)

subsection \<open>Which answers make \<^verbatim>\<open>callOpenRouter\<close> throw\<close>

lemma first_content_throws: "isl (first_content d) \<longleftrightarrow> d = OrNull"
  by (induction d rule: first_content.induct) simp_all

lemma no_content_result:
  "no_content d \<Longrightarrow> callOpenRouter_result (Response True (JsonResolved d)) = Inr []"
  by (induction d rule: no_content.induct) simp_all

lemma null_body_throws: "callOpenRouter_result (Response True (JsonResolved OrNull)) = Inl TypeError"
  by simp

lemma backup_fails_iff:
  "backup_fails w \<longleftrightarrow>
     fetch w = FetchRejected \<or> (\<exists>j. fetch w = Response False j) \<or>
     fetch w = Response True JsonRejected \<or> fetch w = Response True (JsonResolved OrNull)"
proof (cases "fetch w")
  case FetchRejected
  then show ?thesis by (simp add: backup_fails_def)
next
  case (Response ok j)
  show ?thesis
  proof (cases j)
    case JsonRejected
    with Response show ?thesis by (simp add: backup_fails_def)
  next
    case (JsonResolved d)
    with Response show ?thesis
      using first_content_throws[of d]
      by (cases "first_content d") (auto simp: backup_fails_def)
  qed
qed

lemma catch_runs_iff:
  "isBackupActive st \<or> primary_fails w st \<longleftrightarrow>
     \<not> ((createOk w \<or> chatClient st \<noteq> None) \<and> \<not> isBackupActive st \<and> sendMessage w \<noteq> SendRejected)"
  by (auto simp: primary_fails_def)

lemma request_messages_eq:
  "request_messages cfg ms =
     \<lparr>entry_role = ''system'', content = NEO_KUN_SYSTEM_PROMPT cfg\<rparr> #
     map (\<lambda>m. \<lparr>entry_role = (case role m of User \<Rightarrow> ''user'' | Model \<Rightarrow> ''assistant''),
                content = text m\<rparr>) ms"
  by (auto simp: request_messages_def split: role.splits)

subsection \<open>The cells after one send\<close>

lemma apply_effects_append:
  "apply_effects (es @ fs) st = apply_effects fs (apply_effects es st)"
  by (induction es arbitrary: st) simp_all

lemma recreate_chat_cells:
  "messages (apply_effects (snd (recreate_chat ok snap)) st) = messages st"
  "isBackupActive (apply_effects (snd (recreate_chat ok snap)) st) = isBackupActive st"
  "input (apply_effects (snd (recreate_chat ok snap)) st) = input st"
  "isTyping (apply_effects (snd (recreate_chat ok snap)) st) = isTyping st"
  by (simp_all add: recreate_chat_def split: option.splits)

lemma recreate_chat_None:
  "fst (recreate_chat ok snap) = None \<longleftrightarrow> chatClient snap = None \<and> \<not> ok"
  by (simp add: recreate_chat_def split: option.splits)

lemma messages_send:
  assumes "trim (input st) \<noteq> []" "truthy (API_KEY cfg)"
  shows "messages (send cfg w st) = messages st @
     [user_message (input st),
      model_message
        (if (chatClient st \<noteq> None \<or> createOk w) \<and> \<not> isBackupActive st
            \<and> sendMessage w \<noteq> SendRejected
         then (case sendMessage w of SendResolved t \<Rightarrow> or_empty t | SendRejected \<Rightarrow> [])
         else (case callOpenRouter_result (fetch w) of Inl e \<Rightarrow> glitch_text | Inr t \<Rightarrow> t))]"
  using assms
  by (cases "sendMessage w")
     (simp_all add: send_def handleSendMessage_trace apply_effects_append recreate_chat_cells
        recreate_chat_None catch_run_eq)

lemma isBackupActive_send:
  assumes "trim (input st) \<noteq> []" "truthy (API_KEY cfg)"
  shows "isBackupActive (send cfg w st) \<longleftrightarrow>
           isBackupActive st \<or> (chatClient st = None \<and> \<not> createOk w) \<or> sendMessage w = SendRejected"
  using assms
  by (cases "sendMessage w")
     (auto simp add: send_def handleSendMessage_trace apply_effects_append recreate_chat_cells
        recreate_chat_None catch_run_eq)

subsection \<open>The feedback updater, position by position\<close>

lemma feedback_updater_length: "length (feedback_updater i t ms) = length ms"
  by (simp add: feedback_updater_def)

lemma feedback_updater_nth:
  "k < length ms \<Longrightarrow> feedback_updater i t ms ! k =
     (if int k = i then (ms ! k)\<lparr>feedback := (if feedback (ms ! k) = Some t then None else Some t)\<rparr> else ms ! k)"
  by (simp add: feedback_updater_def nth_enumerate_eq)

lemma feedback_updater_out_of_range:
  "i < 0 \<or> int (length ms) \<le> i \<Longrightarrow> feedback_updater i t ms = ms"
  by (rule nth_equalityI) (auto simp: feedback_updater_length feedback_updater_nth)

lemma feedback_updater_in_range:
  assumes "0 \<le> i" "i < int (length ms)"
  shows "feedback_updater i t ms =
           ms[nat i := (ms ! nat i)\<lparr>feedback :=
                 (if feedback (ms ! nat i) = Some t then None else Some t)\<rparr>]"
proof (rule nth_equalityI)
  show "length (feedback_updater i t ms) = length (ms[nat i := (ms ! nat i)\<lparr>feedback :=
                 (if feedback (ms ! nat i) = Some t then None else Some t)\<rparr>])"
    by (simp add: feedback_updater_length)
next
  fix k assume "k < length (feedback_updater i t ms)"
  then have k: "k < length ms" by (simp add: feedback_updater_length)
  show "feedback_updater i t ms ! k = ms[nat i := (ms ! nat i)\<lparr>feedback :=
                 (if feedback (ms ! nat i) = Some t then None else Some t)\<rparr>] ! k"
  proof (cases "int k = i")
    case True
    then have "nat i = k" by simp
    with k True show ?thesis by (simp add: feedback_updater_nth)
  next
    case False
    with assms have "nat i \<noteq> k" by auto
    with k False show ?thesis by (simp add: feedback_updater_nth)
  qed
qed

lemma messages_setFeedback:
  "messages (setFeedback i t st) = feedback_updater i t (messages st)"
  by (simp add: setFeedback_def handleFeedback_def)

lemma setFeedback_eq:
  "setFeedback i t st = st\<lparr>messages := feedback_updater i t (messages st)\<rparr>"
  by (simp add: setFeedback_def handleFeedback_def)

subsection \<open>Where an effect can stand in a trace\<close>

text \<open>A trace with a single effect of some kind splits around it in one way only.\<close>

lemma split_unique:
  "pre @ y # post = p @ x # q \<Longrightarrow> P y \<Longrightarrow> \<forall>e\<in>set p. \<not> P e \<Longrightarrow> \<forall>e\<in>set q. \<not> P e
     \<Longrightarrow> pre = p \<and> y = x \<and> post = q"
  by (induction p arbitrary: pre) (auto simp: Cons_eq_append_conv append_eq_Cons_conv)

lemma recreate_chat_effects:
  "set (snd (recreate_chat ok snap)) \<subseteq> {CreateChat, SetChatClient Chat}"
  by (auto simp: recreate_chat_def split: option.splits if_splits)

lemma recreate_chat_no_Fetch: "e \<in> set (snd (recreate_chat ok snap)) \<Longrightarrow> \<not> is_Fetch e"
  using recreate_chat_effects[of ok snap] by auto

lemma recreate_chat_no_SendMessage: "e \<in> set (snd (recreate_chat ok snap)) \<Longrightarrow> \<not> is_SendMessage e"
  using recreate_chat_effects[of ok snap] by auto

lemma recreate_chat_no_Append: "AppendMessage m \<notin> set (snd (recreate_chat ok snap))"
  using recreate_chat_effects[of ok snap] by auto

subsection \<open>Counting provider calls, in a send and in a session\<close>

lemma primary_calls_append: "primary_calls (es @ fs) = primary_calls es + primary_calls fs"
  by (simp add: primary_calls_def)

lemma backup_calls_append: "backup_calls (es @ fs) = backup_calls es + backup_calls fs"
  by (simp add: backup_calls_def)

lemma primary_calls_simps:
  "primary_calls [] = 0"
  "primary_calls (e # es) = (if is_SendMessage e then 1 else 0) + primary_calls es"
  by (simp_all add: primary_calls_def)

lemma backup_calls_simps:
  "backup_calls [] = 0"
  "backup_calls (e # es) = (if is_Fetch e then 1 else 0) + backup_calls es"
  by (simp_all add: backup_calls_def)

lemma primary_calls_recreate: "primary_calls (snd (recreate_chat ok snap)) = 0"
  by (simp add: primary_calls_def recreate_chat_def split: option.splits)

lemma backup_calls_recreate: "backup_calls (snd (recreate_chat ok snap)) = 0"
  by (simp add: backup_calls_def recreate_chat_def split: option.splits)

lemma primary_calls_catch_run: "primary_calls (catch_run cfg w snap) = 0"
  by (simp add: primary_calls_def catch_run_eq)

lemma backup_calls_catch_run: "backup_calls (catch_run cfg w snap) = 1"
  by (simp add: backup_calls_def catch_run_eq)

lemma primary_calls_le_1: "primary_calls (fst (handleSendMessage cfg w st)) \<le> 1"
proof -
  consider (blank) "trim (input st) = []"
    | (nokey) "trim (input st) \<noteq> []" "\<not> truthy (API_KEY cfg)"
    | (go) "trim (input st) \<noteq> []" "truthy (API_KEY cfg)" by blast
  then show ?thesis
  proof cases
    case blank
    then show ?thesis by (simp add: handleSendMessage_blank primary_calls_simps)
  next
    case nokey
    then show ?thesis by (simp add: handleSendMessage_no_key primary_calls_simps)
  next
    case go
    have "primary_calls (fst (handleSendMessage cfg w st)) =
        (if fst (recreate_chat (createOk w) st) \<noteq> None \<and> \<not> isBackupActive st then 1 else 0)"
      by (cases "sendMessage w")
         (simp_all add: handleSendMessage_trace[OF go] primary_calls_append primary_calls_recreate
            primary_calls_catch_run primary_calls_simps)
    then show ?thesis by simp
  qed
qed

lemma primary_calls_backup:
  assumes "isBackupActive st"
  shows "primary_calls (fst (handleSendMessage cfg w st)) = 0"
proof -
  consider (blank) "trim (input st) = []"
    | (nokey) "trim (input st) \<noteq> []" "\<not> truthy (API_KEY cfg)"
    | (go) "trim (input st) \<noteq> []" "truthy (API_KEY cfg)" by blast
  then show ?thesis
  proof cases
    case blank
    then show ?thesis by (simp add: handleSendMessage_blank primary_calls_simps)
  next
    case nokey
    then show ?thesis by (simp add: handleSendMessage_no_key primary_calls_simps)
  next
    case go
    with assms show ?thesis
      by (simp add: handleSendMessage_trace[OF go] primary_calls_append primary_calls_recreate
            primary_calls_catch_run primary_calls_simps)
  qed
qed

lemma provider_effects_backup:
  assumes "isBackupActive st" "trim (input st) \<noteq> []" "truthy (API_KEY cfg)"
  shows "filter is_provider_call (fst (handleSendMessage cfg w st)) =
           (if chatClient st = None then [CreateChat] else []) @
           [Fetch (request_messages cfg (messages st @ [user_message (input st)]))]"
  using assms
  by (simp add: handleSendMessage_trace catch_run_eq)
     (auto simp: recreate_chat_def split: option.splits)

lemma backup_calls_backup:
  assumes "isBackupActive st" "truthy (API_KEY cfg)"
  shows "backup_calls (fst (handleSendMessage cfg w st)) = (if trim (input st) = [] then 0 else 1)"
proof (cases "trim (input st) = []")
  case True
  then show ?thesis by (simp add: handleSendMessage_blank backup_calls_def)
next
  case False
  with assms show ?thesis
    by (simp add: handleSendMessage_trace backup_calls_append backup_calls_recreate
          backup_calls_catch_run backup_calls_simps)
qed

lemma isBackupActive_send_mono:
  assumes "isBackupActive st"
  shows "isBackupActive (send cfg w st)"
proof -
  consider (blank) "trim (input st) = []"
    | (nokey) "trim (input st) \<noteq> []" "\<not> truthy (API_KEY cfg)"
    | (go) "trim (input st) \<noteq> []" "truthy (API_KEY cfg)" by blast
  then show ?thesis
  proof cases
    case blank
    with assms show ?thesis by (simp add: send_def handleSendMessage_blank)
  next
    case nokey
    with assms show ?thesis by (simp add: send_def handleSendMessage_no_key)
  next
    case go
    with assms show ?thesis by (simp add: isBackupActive_send)
  qed
qed

lemma isBackupActive_take_turn: "isBackupActive st \<Longrightarrow> isBackupActive (take_turn cfg t st)"
  by (simp add: take_turn_def isBackupActive_send_mono)

lemma session_append: "session cfg (ts @ us) st = session cfg us (session cfg ts st)"
  by (induction ts arbitrary: st) simp_all

lemma session_trace_append:
  "session_trace cfg (ts @ us) st =
     session_trace cfg ts st @ session_trace cfg us (session cfg ts st)"
  by (induction ts arbitrary: st) simp_all

lemma session_sticky: "isBackupActive st \<Longrightarrow> isBackupActive (session cfg ts st)"
  by (induction ts arbitrary: st) (simp_all add: isBackupActive_take_turn)

lemma session_no_primary:
  "isBackupActive st \<Longrightarrow> primary_calls (session_trace cfg ts st) = 0"
  by (induction ts arbitrary: st)
     (simp_all add: primary_calls_append turn_trace_def primary_calls_backup
        isBackupActive_take_turn primary_calls_simps)

lemma session_primary_le: "primary_calls (session_trace cfg ts st) \<le> length ts"
proof (induction ts arbitrary: st)
  case Nil
  show ?case by (simp add: primary_calls_simps)
next
  case (Cons t ts)
  have "primary_calls (turn_trace cfg t st) \<le> 1"
    unfolding turn_trace_def by (rule primary_calls_le_1)
  with Cons[of "take_turn cfg t st"] show ?case by (simp add: primary_calls_append)
qed

lemma session_backup_calls:
  "isBackupActive st \<Longrightarrow> truthy (API_KEY cfg) \<Longrightarrow>
     backup_calls (session_trace cfg ts st) = length (filter (\<lambda>t. trim (typed t) \<noteq> []) ts)"
  by (induction ts arbitrary: st)
     (simp_all add: backup_calls_append turn_trace_def backup_calls_backup
        isBackupActive_take_turn backup_calls_simps)

subsection \<open>Events\<close>

text \<open>
  The synchronous part of the handler does not read \<^verbatim>\<open>isTyping\<close>; a submit with
  non-blank input and the key set always suspends at an await and appends the User message.
\<close>

lemma recreate_chat_ignores_isTyping:
  "recreate_chat ok (snap\<lparr>isTyping := p\<rparr>) = recreate_chat ok snap"
  by (simp add: recreate_chat_def)

lemma start_ignores_isTyping:
  "handleSendMessage_start cfg ok (snap\<lparr>isTyping := p\<rparr>) = handleSendMessage_start cfg ok snap"
  by (simp add: handleSendMessage_start_eq recreate_chat_ignores_isTyping)

lemma start_go_suspended:
  assumes "trim (input snap) \<noteq> []" "truthy (API_KEY cfg)"
  shows "suspended (snd (handleSendMessage_start cfg ok snap))"
  using assms by (simp add: handleSendMessage_start_eq)

lemma start_go_messages:
  assumes "trim (input snap) \<noteq> []" "truthy (API_KEY cfg)"
  shows "messages (apply_effects (fst (handleSendMessage_start cfg ok snap)) st)
           = messages st @ [user_message (input snap)]"
  using assms
  by (simp add: handleSendMessage_start_eq apply_effects_append recreate_chat_cells)

lemma submit_accepted:
  assumes "trim (input (cells c)) \<noteq> []" "truthy (API_KEY cfg)"
  shows "outstanding (react cfg (Submit ok) c) = Suc (outstanding c)"
    and "messages (cells (react cfg (Submit ok) c)) =
           messages (cells c) @ [user_message (input (cells c))]"
  using assms
  by (simp_all add: outstanding_def Let_def start_go_suspended start_go_messages)

lemma start_primary:
  assumes "trim (input snap) \<noteq> []" "truthy (API_KEY cfg)" "\<not> isBackupActive snap"
    "ok \<or> chatClient snap \<noteq> None"
  shows "snd (handleSendMessage_start cfg ok snap) = AwaitSendMessage"
    and "messages (apply_effects (fst (handleSendMessage_start cfg ok snap)) st)
           = messages st @ [user_message (input snap)]"
    and "isBackupActive (apply_effects (fst (handleSendMessage_start cfg ok snap)) st)
           = isBackupActive st"
    and "chatClient (apply_effects (fst (handleSendMessage_start cfg ok snap)) snap) \<noteq> None"
    and "input (apply_effects (fst (handleSendMessage_start cfg ok snap)) st) = []"
  using assms
  by (auto simp add: handleSendMessage_start_eq apply_effects_append recreate_chat_cells
        recreate_chat_None)
     (auto simp: recreate_chat_def split: option.splits)

text \<open>The request of a call to the Backup provider is built from the closure.\<close>

lemma Fetch_in_catch:
  "Fetch r \<in> set (fst (catch_primary cfg snap)) \<Longrightarrow>
     r = request_messages cfg (messages snap @ [user_message (input snap)])"
  by (simp add: catch_primary_def callOpenRouter_request_def)

lemma Fetch_in_start:
  "Fetch r \<in> set (fst (handleSendMessage_start cfg ok snap)) \<Longrightarrow>
     r = request_messages cfg (messages snap @ [user_message (input snap)])"
  using recreate_chat_no_Fetch[of "Fetch r" ok snap]
  by (auto simp: handleSendMessage_start_eq split: if_splits)

lemma Fetch_in_sent:
  "Fetch r \<in> set (fst (handleSendMessage_sent cfg snap out)) \<Longrightarrow>
     r = request_messages cfg (messages snap @ [user_message (input snap)])"
  by (cases out) (auto dest: Fetch_in_catch)

lemma react_cells: "cells (react cfg e c) = apply_effects (emitted cfg e c) (cells c)"
  by (cases e) (simp_all add: Let_def)

text \<open>
  The two descriptions of a send agree: submitting on the component and settling the
  promises of that call right away gives the cells that \<^const>\<open>send\<close> computes.
\<close>

lemma run_alone:
  "cells (run cfg [Submit (createOk w), Sent (length (calls c)) (sendMessage w),
                   Fetched (length (calls c)) (fetch w)] c) = send cfg w (cells c)"
  by (cases "sendMessage w")
     (simp_all add: send_def handleSendMessage_def resume_sendMessage_def resume_fetch_def
        handleSendMessage_start_eq Let_def apply_effects_append catch_primary_def
        nth_append)

section \<open>Properties of the chat session\<close>

subsection \<open>C1: the user message is appended before any provider call\<close>

text \<open>
  C1 (as amended). For every send whose input is non-empty after trimming, made while
  \<^verbatim>\<open>process.env.API_KEY\<close> is set, the User message carrying the input is appended before
  the chat is constructed and before either provider is called (every provider effect of
  the trace has that append before it), and the transcript after the send is the old
  transcript, that User message and one Assistant message, whatever the providers answer,
  in particular when both fail.
\<close>

theorem user_message_appended_before_provider_calls:
  assumes "trim (input st) \<noteq> []" and "truthy (API_KEY cfg)"
  shows "(\<forall>pre e post. fst (handleSendMessage cfg w st) = pre @ e # post \<and> is_provider_call e
            \<longrightarrow> AppendMessage (user_message (input st)) \<in> set pre) \<and>
         (\<exists>a. messages (send cfg w st) = messages st @ [user_message (input st), a])"
proof
  obtain rest where tr: "fst (handleSendMessage cfg w st) =
      SetInput [] # AppendMessage (user_message (input st)) # rest"
    using handleSendMessage_trace[OF assms, of w] by simp
  show "\<forall>pre e post. fst (handleSendMessage cfg w st) = pre @ e # post \<and> is_provider_call e
            \<longrightarrow> AppendMessage (user_message (input st)) \<in> set pre"
  proof (intro allI impI)
    fix pre e post
    assume h: "fst (handleSendMessage cfg w st) = pre @ e # post \<and> is_provider_call e"
    show "AppendMessage (user_message (input st)) \<in> set pre"
    proof (cases pre)
      case Nil
      with h tr show ?thesis by auto
    next
      case (Cons x pre')
      with h tr show ?thesis by (cases pre') auto
    qed
  qed
  show "\<exists>a. messages (send cfg w st) = messages st @ [user_message (input st), a]"
    using messages_send[OF assms, of w] by blast
qed

text \<open>
  The theorem at the input "hello" with the key set and both providers failing.
\<close>

theorem user_message_appended_before_provider_calls_witness:
  "trim (input hello) \<noteq> [] \<and> truthy (API_KEY with_key) \<and>
   (fst (handleSendMessage with_key both_down hello) =
      [SetInput [], AppendMessage (user_message (input hello)), SetIsTyping True] @ CreateChat #
      [SetChatClient Chat, SendMessage ''hello'', SetIsBackupActive True,
       Fetch [\<lparr>entry_role = ''system'', content = ''persona''\<rparr>,
              \<lparr>entry_role = ''user'', content = ''hello''\<rparr>],
       AppendMessage (model_message glitch_text), SetIsTyping False] \<and>
    is_provider_call CreateChat) \<and>
   AppendMessage (user_message (input hello))
     \<in> set [SetInput [], AppendMessage (user_message (input hello)), SetIsTyping True] \<and>
   (\<exists>a. messages (send with_key both_down hello) =
          messages hello @ [user_message (input hello), a])"
proof -
  have h1: "trim (input hello) \<noteq> []" by code_simp
  have h2: "truthy (API_KEY with_key)" by code_simp
  have h3: "fst (handleSendMessage with_key both_down hello) =
      [SetInput [], AppendMessage (user_message (input hello)), SetIsTyping True] @ CreateChat #
      [SetChatClient Chat, SendMessage ''hello'', SetIsBackupActive True,
       Fetch [\<lparr>entry_role = ''system'', content = ''persona''\<rparr>,
              \<lparr>entry_role = ''user'', content = ''hello''\<rparr>],
       AppendMessage (model_message glitch_text), SetIsTyping False] \<and>
    is_provider_call CreateChat" by code_simp
  from user_message_appended_before_provider_calls[OF h1 h2, of both_down] h1 h2 h3 show ?thesis by blast
qed

text \<open>
  C1 as stated fails without the key: the guard of lines 1597-1601 returns before line
  1605, so a send of "hello" appends only the Assistant message about the missing key and
  the User message is not in the transcript.
\<close>

theorem user_message_missing_without_key:
  "trim (input hello) \<noteq> [] \<and>
   fst (handleSendMessage without_key both_down hello) =
     [AppendMessage (model_message key_missing_text)] \<and>
   user_message (input hello) \<notin> set (messages (send without_key both_down hello))"
  by code_simp

subsection \<open>C2: failover to the Backup provider is sticky\<close>

text \<open>
  C2 (as amended). A send with non-blank input and the key set whose Primary attempt fails
  (no chat and the constructor throws, or \<^verbatim>\<open>sendMessage\<close> rejects) ends with
  \<^verbatim>\<open>isBackupActive\<close> set. With the flag set, a send with non-blank input and the key set
  does exactly this towards the providers: if no chat is stored (the failover came from a
  constructor that threw) it runs the Primary constructor again, and then it calls the
  Backup provider once; it never calls \<^verbatim>\<open>sendMessage\<close>. Once the flag is set after the
  turns \<^verbatim>\<open>pre\<close> of a session, it is still set after any further turns \<^verbatim>\<open>post\<close>; those
  turns never call \<^verbatim>\<open>sendMessage\<close>, each of them with non-blank input calls the Backup
  provider exactly once, and the number of \<^verbatim>\<open>sendMessage\<close> calls of the whole session is
  at most the number of turns in \<^verbatim>\<open>pre\<close>, the sends issued up to the failover.
\<close>

theorem backup_mode_is_sticky:
  "(trim (input st) \<noteq> [] \<and> truthy (API_KEY cfg) \<and> primary_fails w st \<longrightarrow>
      isBackupActive (send cfg w st)) \<and>
   (isBackupActive st1 \<and> trim (input st1) \<noteq> [] \<and> truthy (API_KEY cfg) \<longrightarrow>
      filter is_provider_call (fst (handleSendMessage cfg w1 st1)) =
        (if chatClient st1 = None then [CreateChat] else []) @
        [Fetch (request_messages cfg (messages st1 @ [user_message (input st1)]))]) \<and>
   (isBackupActive (session cfg pre st0) \<longrightarrow>
      isBackupActive (session cfg (pre @ post) st0) \<and>
      primary_calls (session_trace cfg post (session cfg pre st0)) = 0 \<and>
      primary_calls (session_trace cfg (pre @ post) st0) \<le> length pre \<and>
      (truthy (API_KEY cfg) \<longrightarrow>
         backup_calls (session_trace cfg post (session cfg pre st0)) =
           length (filter (\<lambda>t. trim (typed t) \<noteq> []) post)))"
proof (intro conjI impI)
  assume "trim (input st) \<noteq> [] \<and> truthy (API_KEY cfg) \<and> primary_fails w st"
  then show "isBackupActive (send cfg w st)"
    by (auto simp: isBackupActive_send primary_fails_def)
next
  assume "isBackupActive st1 \<and> trim (input st1) \<noteq> [] \<and> truthy (API_KEY cfg)"
  then show "filter is_provider_call (fst (handleSendMessage cfg w1 st1)) =
        (if chatClient st1 = None then [CreateChat] else []) @
        [Fetch (request_messages cfg (messages st1 @ [user_message (input st1)]))]"
    by (simp add: provider_effects_backup)
next
  assume b: "isBackupActive (session cfg pre st0)"
  then show "isBackupActive (session cfg (pre @ post) st0)"
    by (simp add: session_append session_sticky)
  from b show z: "primary_calls (session_trace cfg post (session cfg pre st0)) = 0"
    by (rule session_no_primary)
  have "primary_calls (session_trace cfg pre st0) \<le> length pre" by (rule session_primary_le)
  with z show "primary_calls (session_trace cfg (pre @ post) st0) \<le> length pre"
    by (simp add: session_trace_append primary_calls_append)
  assume "truthy (API_KEY cfg)"
  with b show "backup_calls (session_trace cfg post (session cfg pre st0)) =
           length (filter (\<lambda>t. trim (typed t) \<noteq> []) post)"
    by (rule session_backup_calls)
qed

text \<open>
  The theorem on a failover by a throwing constructor: the send that fails over, a later
  send with no chat stored and one with a chat stored, and a session that goes on for
  three turns, one of them blank, with a Primary provider that would answer.
\<close>

theorem backup_mode_is_sticky_witness:
  "(trim (input hello) \<noteq> [] \<and> truthy (API_KEY with_key) \<and> primary_fails constructor_down hello) \<and>
   isBackupActive (send with_key constructor_down hello) \<and>
   (isBackupActive after_constructor_failure \<and> trim (input after_constructor_failure) \<noteq> []) \<and>
   filter is_provider_call
     (fst (handleSendMessage with_key (primary_up (Some ''pong'')) after_constructor_failure)) =
     (if chatClient after_constructor_failure = None then [CreateChat] else []) @
     [Fetch (request_messages with_key
        (messages after_constructor_failure @ [user_message (input after_constructor_failure)]))] \<and>
   (isBackupActive on_backup \<and> trim (input on_backup) \<noteq> []) \<and>
   filter is_provider_call (fst (handleSendMessage with_key (primary_up (Some ''pong'')) on_backup)) =
     (if chatClient on_backup = None then [CreateChat] else []) @
     [Fetch (request_messages with_key (messages on_backup @ [user_message (input on_backup)]))] \<and>
   isBackupActive (session with_key constructor_failing_turns initial) \<and>
   isBackupActive (session with_key (constructor_failing_turns @ later_turns) initial) \<and>
   primary_calls (session_trace with_key later_turns
                    (session with_key constructor_failing_turns initial)) = 0 \<and>
   primary_calls (session_trace with_key (constructor_failing_turns @ later_turns) initial)
     \<le> length constructor_failing_turns \<and>
   backup_calls (session_trace with_key later_turns
                   (session with_key constructor_failing_turns initial)) =
     length (filter (\<lambda>t. trim (typed t) \<noteq> []) later_turns)"
proof -
  have a: "trim (input hello) \<noteq> [] \<and> truthy (API_KEY with_key) \<and>
           primary_fails constructor_down hello" by code_simp
  have b: "isBackupActive (session with_key constructor_failing_turns initial)" by code_simp
  have k: "truthy (API_KEY with_key)" by code_simp
  have c: "isBackupActive after_constructor_failure \<and> trim (input after_constructor_failure) \<noteq> []"
    by code_simp
  have d: "isBackupActive on_backup \<and> trim (input on_backup) \<noteq> []" by code_simp
  from backup_mode_is_sticky[of hello with_key constructor_down after_constructor_failure
            "primary_up (Some ''pong'')" constructor_failing_turns initial later_turns]
       backup_mode_is_sticky[of hello with_key constructor_down on_backup
            "primary_up (Some ''pong'')" constructor_failing_turns initial later_turns]
       a b c d k
  show ?thesis by blast
qed

text \<open>
  C2 as stated fails after a failover by a throwing constructor: the session is in
  Backup mode, yet the next send runs the Primary constructor again (lines 1611-1619)
  before it calls the Backup provider.
\<close>

theorem constructor_rerun_after_failover:
  "primary_fails constructor_down (initial\<lparr>input := ''a''\<rparr>) \<and>
   isBackupActive (session with_key constructor_failing_turns initial) \<and>
   filter is_provider_call
     (session_trace with_key [\<lparr>typed = ''b'', answers = primary_up (Some ''pong'')\<rparr>]
        (session with_key constructor_failing_turns initial)) =
     [CreateChat,
      Fetch [\<lparr>entry_role = ''system'', content = ''persona''\<rparr>,
             \<lparr>entry_role = ''user'', content = ''a''\<rparr>,
             \<lparr>entry_role = ''assistant'', content = []\<rparr>,
             \<lparr>entry_role = ''user'', content = ''b''\<rparr>]]"
  by code_simp

subsection \<open>C3: both providers fail\<close>

text \<open>
  C3 (as amended). For a send with non-blank input and the key set in which the Backup
  provider is called (the Primary attempt failed in this turn, or the session is already
  in Backup mode and line 1629 throws) and \<^verbatim>\<open>callOpenRouter\<close> throws, the transcript
  grows by exactly two entries, the User message and the Assistant message "System glitch.
  Both primary and backup lines are unstable."; the handler returns normally, as it does
  on every path. An Assistant message appended by a send is one of four: that message, on
  exactly this path; the message about the missing key, when the input is non-blank and
  the key is not set; the text with which the Primary provider resolved, when it was
  called; the text \<^verbatim>\<open>callOpenRouter\<close> returned, when the Backup provider was called.
\<close>

theorem failed_backup_call_appends_glitch_message:
  "(trim (input st) \<noteq> [] \<and> truthy (API_KEY cfg) \<and>
    (isBackupActive st \<or> primary_fails w st) \<and> backup_fails w \<longrightarrow>
      messages (send cfg w st) =
        messages st @ [user_message (input st), model_message glitch_text] \<and>
      length (messages (send cfg w st)) = length (messages st) + 2 \<and>
      snd (handleSendMessage cfg w st) = Done (Inr ())) \<and>
   (\<forall>m. AppendMessage m \<in> set (fst (handleSendMessage cfg w st)) \<and> role m = Model \<longrightarrow>
      (m = model_message glitch_text \<and> trim (input st) \<noteq> [] \<and> truthy (API_KEY cfg) \<and>
         (isBackupActive st \<or> primary_fails w st) \<and> backup_fails w) \<or>
      (m = model_message key_missing_text \<and> trim (input st) \<noteq> [] \<and> \<not> truthy (API_KEY cfg)) \<or>
      (\<exists>t. \<not> isBackupActive st \<and> (createOk w \<or> chatClient st \<noteq> None) \<and>
           sendMessage w = SendResolved t \<and> m = model_message (or_empty t)) \<or>
      (\<exists>t. (isBackupActive st \<or> primary_fails w st) \<and>
           callOpenRouter_result (fetch w) = Inr t \<and> m = model_message t))"
proof (intro conjI impI allI)
  assume h: "trim (input st) \<noteq> [] \<and> truthy (API_KEY cfg) \<and>
    (isBackupActive st \<or> primary_fails w st) \<and> backup_fails w"
  then show m: "messages (send cfg w st) =
        messages st @ [user_message (input st), model_message glitch_text]"
    by (cases "callOpenRouter_result (fetch w)")
       (auto simp: messages_send primary_fails_def backup_fails_def)
  then show "length (messages (send cfg w st)) = length (messages st) + 2" by simp
next
  show "snd (handleSendMessage cfg w st) = Done (Inr ())" by (rule handleSendMessage_returns)
next
  fix m
  assume a: "AppendMessage m \<in> set (fst (handleSendMessage cfg w st)) \<and> role m = Model"
  consider (blank) "trim (input st) = []"
    | (nokey) "trim (input st) \<noteq> []" "\<not> truthy (API_KEY cfg)"
    | (go) "trim (input st) \<noteq> []" "truthy (API_KEY cfg)" by blast
  then show "(m = model_message glitch_text \<and> trim (input st) \<noteq> [] \<and> truthy (API_KEY cfg) \<and>
         (isBackupActive st \<or> primary_fails w st) \<and> backup_fails w) \<or>
      (m = model_message key_missing_text \<and> trim (input st) \<noteq> [] \<and> \<not> truthy (API_KEY cfg)) \<or>
      (\<exists>t. \<not> isBackupActive st \<and> (createOk w \<or> chatClient st \<noteq> None) \<and>
           sendMessage w = SendResolved t \<and> m = model_message (or_empty t)) \<or>
      (\<exists>t. (isBackupActive st \<or> primary_fails w st) \<and>
           callOpenRouter_result (fetch w) = Inr t \<and> m = model_message t)"
  proof cases
    case blank
    with a show ?thesis by (simp add: handleSendMessage_blank)
  next
    case nokey
    with a show ?thesis by (simp add: handleSendMessage_no_key)
  next
    case go
    have u: "role (user_message (input st)) \<noteq> Model" by (simp add: user_message_def)
    from a go u show ?thesis
      by (cases "sendMessage w"; cases "callOpenRouter_result (fetch w)")
         (auto simp: handleSendMessage_trace catch_run_eq recreate_chat_no_Append backup_fails_def
               primary_fails_def recreate_chat_None
               split: if_splits)
  qed
qed

text \<open>
  The theorem at the input "hello" with the key set and both providers failing.
\<close>

theorem failed_backup_call_appends_glitch_message_witness:
  "(trim (input hello) \<noteq> [] \<and> truthy (API_KEY with_key) \<and>
    (isBackupActive hello \<or> primary_fails both_down hello) \<and> backup_fails both_down) \<and>
   messages (send with_key both_down hello) =
     messages hello @ [user_message (input hello), model_message glitch_text] \<and>
   length (messages (send with_key both_down hello)) = length (messages hello) + 2 \<and>
   snd (handleSendMessage with_key both_down hello) = Done (Inr ()) \<and>
   (AppendMessage (model_message glitch_text)
      \<in> set (fst (handleSendMessage with_key both_down hello)) \<and>
    role (model_message glitch_text) = Model) \<and>
   ((model_message glitch_text = model_message glitch_text \<and> trim (input hello) \<noteq> [] \<and>
       truthy (API_KEY with_key) \<and>
       (isBackupActive hello \<or> primary_fails both_down hello) \<and> backup_fails both_down) \<or>
    (model_message glitch_text = model_message key_missing_text \<and> trim (input hello) \<noteq> [] \<and>
       \<not> truthy (API_KEY with_key)) \<or>
    (\<exists>t. \<not> isBackupActive hello \<and> (createOk both_down \<or> chatClient hello \<noteq> None) \<and>
         sendMessage both_down = SendResolved t \<and>
         model_message glitch_text = model_message (or_empty t)) \<or>
    (\<exists>t. (isBackupActive hello \<or> primary_fails both_down hello) \<and>
         callOpenRouter_result (fetch both_down) = Inr t \<and>
         model_message glitch_text = model_message t))"
proof -
  have a: "trim (input hello) \<noteq> [] \<and> truthy (API_KEY with_key) \<and>
    (isBackupActive hello \<or> primary_fails both_down hello) \<and> backup_fails both_down" by code_simp
  have b: "AppendMessage (model_message glitch_text)
      \<in> set (fst (handleSendMessage with_key both_down hello)) \<and>
    role (model_message glitch_text) = Model" by code_simp
  from failed_backup_call_appends_glitch_message[of hello with_key both_down] a b
  show ?thesis by blast
qed

text \<open>
  C3 as stated fails in three places. Without the key a send appends an Assistant
  message that no provider generated although no provider failed (none was called). In
  Backup mode a send whose Backup call fails appends the glitch message although the
  Primary provider did not fail in this turn (it was not called). And after a double
  failure the handler's result is the normal return it also gives on success: no failure
  is reported to the caller.
\<close>

theorem synthetic_message_without_failure_and_no_failure_result:
  "trim (input hello) \<noteq> [] \<and>
   fst (handleSendMessage without_key (primary_up (Some ''pong'')) hello) =
     [AppendMessage (model_message key_missing_text)] \<and>
   role (model_message key_missing_text) = Model \<and>
   \<not> (primary_fails (primary_up (Some ''pong'')) hello \<and> backup_fails (primary_up (Some ''pong''))) \<and>
   \<not> primary_fails (primary_up (Some ''pong'')) on_backup \<and>
   messages (send with_key (primary_up (Some ''pong'')) on_backup) =
     messages on_backup @ [user_message (input on_backup), model_message glitch_text] \<and>
   (primary_fails both_down hello \<and> backup_fails both_down) \<and>
   snd (handleSendMessage with_key both_down hello) = Done (Inr ()) \<and>
   snd (handleSendMessage with_key both_down hello) =
     snd (handleSendMessage with_key (primary_up (Some ''pong'')) hello)"
  by code_simp

subsection \<open>C4: sends that overlap\<close>

text \<open>
  C4 (as amended). The handler has no guard against a send that is still pending: a
  \<^verbatim>\<open>Submit\<close> with non-blank input, the key being set, is accepted in every state of the
  component, appends its User message at once and adds one outstanding call. With two
  sends on the Primary provider, the second submitted while the first is suspended, two
  calls are outstanding and the transcript ends as user a, user b, answer a, answer b:
  entries are ordered by the events that append them. The turns are not interleaved when
  the second send is submitted after the first has settled.
\<close>

theorem overlapping_sends_are_accepted:
  assumes "truthy (API_KEY cfg)" and "trim a \<noteq> []" and "trim b \<noteq> []"
    and "\<not> isBackupActive st" and "ok1 \<or> chatClient st \<noteq> None"
  shows "(\<forall>(c::component) ok. trim (input (cells c)) \<noteq> [] \<longrightarrow>
            outstanding (react cfg (Submit ok) c) = Suc (outstanding c) \<and>
            messages (cells (react cfg (Submit ok) c)) =
              messages (cells c) @ [user_message (input (cells c))]) \<and>
         outstanding (run cfg [Change a, Submit ok1, Change b, Submit ok2]
                        \<lparr>cells = st, calls = []\<rparr>) = 2 \<and>
         messages (cells (run cfg [Change a, Submit ok1, Change b, Submit ok2,
                                   Sent 0 (SendResolved ra), Sent 1 (SendResolved rb)]
                            \<lparr>cells = st, calls = []\<rparr>)) =
           messages st @ [user_message a, user_message b,
                          model_message (or_empty ra), model_message (or_empty rb)] \<and>
         messages (cells (run cfg [Change a, Submit ok1, Sent 0 (SendResolved ra),
                                   Change b, Submit ok2, Sent 1 (SendResolved rb)]
                            \<lparr>cells = st, calls = []\<rparr>)) =
           messages st @ [user_message a, model_message (or_empty ra),
                          user_message b, model_message (or_empty rb)]"
proof (intro conjI allI impI)
  fix c :: component and ok assume nb: "trim (input (cells c)) \<noteq> []"
  from nb assms(1) show "outstanding (react cfg (Submit ok) c) = Suc (outstanding c)"
    by (rule submit_accepted(1))
  from nb assms(1) show "messages (cells (react cfg (Submit ok) c)) =
              messages (cells c) @ [user_message (input (cells c))]"
    by (rule submit_accepted(2))
next
  define s1 where "s1 = st\<lparr>input := a\<rparr>"
  define c1 where "c1 = react cfg (Submit ok1) \<lparr>cells = s1, calls = []\<rparr>"
  have s1: "trim (input s1) \<noteq> []" "\<not> isBackupActive s1" "ok1 \<or> chatClient s1 \<noteq> None"
    "messages s1 = messages st" "input s1 = a"
    using assms by (simp_all add: s1_def)
  note p1 = start_primary[OF s1(1) assms(1) s1(2) s1(3)]
  have c1: "calls c1 = [\<lparr>closure = s1, at = AwaitSendMessage\<rparr>]"
    "messages (cells c1) = messages st @ [user_message a]"
    "\<not> isBackupActive (cells c1)" "chatClient (cells c1) \<noteq> None"
    using p1 s1 by (simp_all add: c1_def Let_def)
  define s2 where "s2 = (cells c1)\<lparr>input := b\<rparr>"
  have s2: "trim (input s2) \<noteq> []" "\<not> isBackupActive s2" "ok2 \<or> chatClient s2 \<noteq> None"
    "messages s2 = messages st @ [user_message a]" "input s2 = b"
    using assms c1 by (simp_all add: s2_def)
  note p2 = start_primary[OF s2(1) assms(1) s2(2) s2(3)]
  define c2 where "c2 = react cfg (Submit ok2) (c1\<lparr>cells := s2\<rparr>)"
  have c2: "calls c2 = [\<lparr>closure = s1, at = AwaitSendMessage\<rparr>, \<lparr>closure = s2, at = AwaitSendMessage\<rparr>]"
    "messages (cells c2) = messages st @ [user_message a, user_message b]"
    using p2 s2 c1 by (simp_all add: c2_def Let_def)
  have r2: "run cfg [Change a, Submit ok1, Change b, Submit ok2] \<lparr>cells = st, calls = []\<rparr> = c2"
    by (simp add: c2_def s2_def c1_def s1_def)
  show "outstanding (run cfg [Change a, Submit ok1, Change b, Submit ok2]
                        \<lparr>cells = st, calls = []\<rparr>) = 2"
    unfolding r2 by (simp add: outstanding_def c2)
  have "run cfg [Change a, Submit ok1, Change b, Submit ok2,
                                   Sent 0 (SendResolved ra), Sent 1 (SendResolved rb)]
                            \<lparr>cells = st, calls = []\<rparr>
      = run cfg [Sent 0 (SendResolved ra), Sent 1 (SendResolved rb)] c2"
    using r2 by simp
  then show "messages (cells (run cfg [Change a, Submit ok1, Change b, Submit ok2,
                                   Sent 0 (SendResolved ra), Sent 1 (SendResolved rb)]
                            \<lparr>cells = st, calls = []\<rparr>)) =
           messages st @ [user_message a, user_message b,
                          model_message (or_empty ra), model_message (or_empty rb)]"
    by (simp add: c2 Let_def)
next
  define s1 where "s1 = st\<lparr>input := a\<rparr>"
  define c1 where "c1 = react cfg (Submit ok1) \<lparr>cells = s1, calls = []\<rparr>"
  have s1: "trim (input s1) \<noteq> []" "\<not> isBackupActive s1" "ok1 \<or> chatClient s1 \<noteq> None"
    "messages s1 = messages st" "input s1 = a"
    using assms by (simp_all add: s1_def)
  note p1 = start_primary[OF s1(1) assms(1) s1(2) s1(3)]
  have c1: "calls c1 = [\<lparr>closure = s1, at = AwaitSendMessage\<rparr>]"
    "messages (cells c1) = messages st @ [user_message a]"
    "\<not> isBackupActive (cells c1)" "chatClient (cells c1) \<noteq> None"
    using p1 s1 by (simp_all add: c1_def Let_def)
  define d1 where "d1 = react cfg (Sent 0 (SendResolved ra)) c1"
  have d1: "calls d1 = [\<lparr>closure = s1, at = Done (Inr ())\<rparr>]"
    "messages (cells d1) = messages st @ [user_message a, model_message (or_empty ra)]"
    "\<not> isBackupActive (cells d1)" "chatClient (cells d1) \<noteq> None"
    using c1 by (simp_all add: d1_def Let_def)
  define s2 where "s2 = (cells d1)\<lparr>input := b\<rparr>"
  have s2: "trim (input s2) \<noteq> []" "\<not> isBackupActive s2" "ok2 \<or> chatClient s2 \<noteq> None"
    "messages s2 = messages st @ [user_message a, model_message (or_empty ra)]" "input s2 = b"
    using assms d1 by (simp_all add: s2_def)
  note p2 = start_primary[OF s2(1) assms(1) s2(2) s2(3)]
  define c2 where "c2 = react cfg (Submit ok2) (d1\<lparr>cells := s2\<rparr>)"
  have c2: "calls c2 = [\<lparr>closure = s1, at = Done (Inr ())\<rparr>, \<lparr>closure = s2, at = AwaitSendMessage\<rparr>]"
    "messages (cells c2) = messages st @ [user_message a, model_message (or_empty ra), user_message b]"
    using p2 s2 d1 by (simp_all add: c2_def Let_def)
  have "run cfg [Change a, Submit ok1, Sent 0 (SendResolved ra),
                                   Change b, Submit ok2, Sent 1 (SendResolved rb)]
                            \<lparr>cells = st, calls = []\<rparr>
      = run cfg [Sent 1 (SendResolved rb)] c2"
    by (simp add: c2_def s2_def d1_def c1_def s1_def)
  then show "messages (cells (run cfg [Change a, Submit ok1, Sent 0 (SendResolved ra),
                                   Change b, Submit ok2, Sent 1 (SendResolved rb)]
                            \<lparr>cells = st, calls = []\<rparr>)) =
           messages st @ [user_message a, model_message (or_empty ra),
                          user_message b, model_message (or_empty rb)]"
    by (simp add: c2 Let_def)
qed

text \<open>
  The theorem for the texts "a" and "b" on a freshly mounted component.
\<close>

theorem overlapping_sends_are_accepted_witness:
  "(truthy (API_KEY with_key) \<and> trim ''a'' \<noteq> [] \<and> trim ''b'' \<noteq> [] \<and>
    \<not> isBackupActive initial \<and> (True \<or> chatClient initial \<noteq> None)) \<and>
   trim (input (cells pending_hello)) \<noteq> [] \<and>
   outstanding (react with_key (Submit True) pending_hello) = Suc (outstanding pending_hello) \<and>
   messages (cells (react with_key (Submit True) pending_hello)) =
     messages (cells pending_hello) @ [user_message (input (cells pending_hello))] \<and>
   outstanding (run with_key [Change ''a'', Submit True, Change ''b'', Submit False]
                  \<lparr>cells = initial, calls = []\<rparr>) = 2 \<and>
   messages (cells (run with_key [Change ''a'', Submit True, Change ''b'', Submit False,
                                  Sent 0 (SendResolved (Some ''A'')), Sent 1 (SendResolved None)]
                      \<lparr>cells = initial, calls = []\<rparr>)) =
     messages initial @ [user_message ''a'', user_message ''b'',
                         model_message (or_empty (Some ''A'')), model_message (or_empty None)] \<and>
   messages (cells (run with_key [Change ''a'', Submit True, Sent 0 (SendResolved (Some ''A'')),
                                  Change ''b'', Submit False, Sent 1 (SendResolved None)]
                      \<lparr>cells = initial, calls = []\<rparr>)) =
     messages initial @ [user_message ''a'', model_message (or_empty (Some ''A'')),
                         user_message ''b'', model_message (or_empty None)]"
proof -
  have h1: "truthy (API_KEY with_key)" by code_simp
  have h2: "trim ''a'' \<noteq> []" by code_simp
  have h3: "trim ''b'' \<noteq> []" by code_simp
  have h4: "\<not> isBackupActive initial" by code_simp
  have h5: "True \<or> chatClient initial \<noteq> None" by simp
  have h6: "trim (input (cells pending_hello)) \<noteq> []" by code_simp
  from overlapping_sends_are_accepted[OF h1 h2 h3 h4 h5, of False "Some ''A''" None] h1 h2 h3 h4 h5 h6
  show ?thesis by blast
qed

text \<open>
  C4 as stated fails: on a freshly mounted component a second send submitted while the
  first is pending is neither rejected nor queued (two calls are outstanding), and the final
  transcript interleaves the two turns instead of having the first turn completed first.
\<close>

theorem overlapping_sends_interleave:
  "outstanding (run with_key [Change ''a'', Submit True, Change ''b'', Submit True] mounted) = 2 \<and>
   messages (cells (run with_key [Change ''a'', Submit True, Change ''b'', Submit True,
                                  Sent 0 (SendResolved (Some ''A'')),
                                  Sent 1 (SendResolved (Some ''B''))] mounted)) =
     [user_message ''a'', user_message ''b'', model_message ''A'', model_message ''B''] \<and>
   messages (cells (run with_key [Change ''a'', Submit True, Change ''b'', Submit True,
                                  Sent 0 (SendResolved (Some ''A'')),
                                  Sent 1 (SendResolved (Some ''B''))] mounted)) \<noteq>
     [user_message ''a'', model_message ''A'', user_message ''b'', model_message ''B'']"
  by code_simp

subsection \<open>C5: the request sent to the Backup provider\<close>

text \<open>
  C5 (as amended). Whenever the Backup provider is called for a turn, the \<^verbatim>\<open>messages\<close> of
  the request are the system prompt as first entry followed by the transcript of the
  handler's closure, that is the transcript as it was when this send was submitted, and
  the User message of this turn, a User message as role "user" and an Assistant message as
  role "assistant", each with its text. For a send that no other send overlaps this is
  the entire transcript at the moment of the call, this turn's User message included.
  Messages appended by other sends while this one was pending are not in the request.
\<close>

theorem backup_request_is_prompt_then_closure_transcript:
  "(fst (handleSendMessage cfg w st) = pre @ Fetch r # post \<longrightarrow>
      messages (apply_effects pre st) = messages st @ [user_message (input st)] \<and>
      r = \<lparr>entry_role = ''system'', content = NEO_KUN_SYSTEM_PROMPT cfg\<rparr> #
          map (\<lambda>m. \<lparr>entry_role = (case role m of User \<Rightarrow> ''user'' | Model \<Rightarrow> ''assistant''),
                     content = text m\<rparr>)
              (messages (apply_effects pre st))) \<and>
   closure (last (calls (react cfg (Submit ok) c))) = cells c \<and>
   (Fetch r1 \<in> set (emitted cfg (Submit ok) c) \<longrightarrow>
      r1 = \<lparr>entry_role = ''system'', content = NEO_KUN_SYSTEM_PROMPT cfg\<rparr> #
           map (\<lambda>m. \<lparr>entry_role = (case role m of User \<Rightarrow> ''user'' | Model \<Rightarrow> ''assistant''),
                      content = text m\<rparr>)
               (messages (cells c) @ [user_message (input (cells c))])) \<and>
   (Fetch r2 \<in> set (emitted cfg (Sent k out) c) \<longrightarrow>
      r2 = \<lparr>entry_role = ''system'', content = NEO_KUN_SYSTEM_PROMPT cfg\<rparr> #
           map (\<lambda>m. \<lparr>entry_role = (case role m of User \<Rightarrow> ''user'' | Model \<Rightarrow> ''assistant''),
                      content = text m\<rparr>)
               (messages (closure (calls c ! k)) @
                  [user_message (input (closure (calls c ! k)))]))"
proof (intro conjI impI)
  assume asm: "fst (handleSendMessage cfg w st) = pre @ Fetch r # post"
  have nb: "trim (input st) \<noteq> []"
    using asm by (auto simp: handleSendMessage_blank)
  have key: "truthy (API_KEY cfg)"
  proof (rule ccontr)
    assume "\<not> truthy (API_KEY cfg)"
    with nb asm have "[AppendMessage (model_message key_missing_text)] = pre @ Fetch r # post"
      by (simp add: handleSendMessage_no_key)
    then show False by (cases pre) auto
  qed
  define tail where "tail = [AppendMessage (model_message
         (case callOpenRouter_result (fetch w) of Inl e \<Rightarrow> glitch_text | Inr t \<Rightarrow> t)),
      SetIsTyping False]"
  define req where "req = request_messages cfg (messages st @ [user_message (input st)])"
  define hd3 where "hd3 = [SetInput [], AppendMessage (user_message (input st)), SetIsTyping True]
      @ snd (recreate_chat (createOk w) st)"
  have nf: "\<forall>e\<in>set hd3. \<not> is_Fetch e"
    by (auto simp: hd3_def dest: recreate_chat_no_Fetch)
  have mh: "messages (apply_effects hd3 st) = messages st @ [user_message (input st)]"
    by (simp add: hd3_def apply_effects_append recreate_chat_cells)
  have tr: "fst (handleSendMessage cfg w st) =
      hd3 @ (if fst (recreate_chat (createOk w) st) \<noteq> None \<and> \<not> isBackupActive st
      then SendMessage (input st) #
           (case sendMessage w of
              SendResolved t \<Rightarrow> [AppendMessage (model_message (or_empty t)), SetIsTyping False]
            | SendRejected \<Rightarrow> catch_run cfg w st)
      else catch_run cfg w st)"
    using handleSendMessage_trace[OF nb key, of w] by (simp add: hd3_def)
  have "\<exists>p. fst (handleSendMessage cfg w st) = p @ Fetch req # tail \<and> (\<forall>e\<in>set p. \<not> is_Fetch e)
           \<and> messages (apply_effects p st) = messages st @ [user_message (input st)]"
  proof (cases "fst (recreate_chat (createOk w) st) \<noteq> None \<and> \<not> isBackupActive st")
    case False
    then have "fst (handleSendMessage cfg w st) = (hd3 @ [SetIsBackupActive True]) @ Fetch req # tail"
      using tr by (simp add: catch_run_eq req_def tail_def)
    moreover have "\<forall>e\<in>set (hd3 @ [SetIsBackupActive True]). \<not> is_Fetch e" using nf by simp
    moreover have "messages (apply_effects (hd3 @ [SetIsBackupActive True]) st)
        = messages st @ [user_message (input st)]"
      using mh by (simp add: apply_effects_append)
    ultimately show ?thesis by blast
  next
    case True
    show ?thesis
    proof (cases "sendMessage w")
      case SendRejected
      with True have "fst (handleSendMessage cfg w st) =
          (hd3 @ [SendMessage (input st), SetIsBackupActive True]) @ Fetch req # tail"
        using tr by (simp add: catch_run_eq req_def tail_def)
      moreover have "\<forall>e\<in>set (hd3 @ [SendMessage (input st), SetIsBackupActive True]). \<not> is_Fetch e"
        using nf by simp
      moreover have "messages (apply_effects (hd3 @ [SendMessage (input st), SetIsBackupActive True]) st)
          = messages st @ [user_message (input st)]"
        using mh by (simp add: apply_effects_append)
      ultimately show ?thesis by blast
    next
      case (SendResolved t)
      with True have "fst (handleSendMessage cfg w st) =
          hd3 @ [SendMessage (input st), AppendMessage (model_message (or_empty t)), SetIsTyping False]"
        using tr by simp
      then have "\<forall>e\<in>set (fst (handleSendMessage cfg w st)). \<not> is_Fetch e"
        using nf by simp
      with asm show ?thesis by simp
    qed
  qed
  then obtain p where p: "fst (handleSendMessage cfg w st) = p @ Fetch req # tail"
      "\<forall>e\<in>set p. \<not> is_Fetch e"
      "messages (apply_effects p st) = messages st @ [user_message (input st)]" by blast
  have "\<forall>e\<in>set tail. \<not> is_Fetch e" by (simp add: tail_def)
  with p asm have e: "pre = p \<and> Fetch r = Fetch req \<and> post = tail"
    by (intro split_unique[where P = is_Fetch]) simp_all
  with p(3) show "messages (apply_effects pre st) = messages st @ [user_message (input st)]"
    by simp
  from e p(3) show "r = \<lparr>entry_role = ''system'', content = NEO_KUN_SYSTEM_PROMPT cfg\<rparr> #
          map (\<lambda>m. \<lparr>entry_role = (case role m of User \<Rightarrow> ''user'' | Model \<Rightarrow> ''assistant''),
                     content = text m\<rparr>)
              (messages (apply_effects pre st))"
    by (simp add: req_def request_messages_eq)
next
  show "closure (last (calls (react cfg (Submit ok) c))) = cells c"
    by (simp add: Let_def)
next
  assume "Fetch r1 \<in> set (emitted cfg (Submit ok) c)"
  then have "r1 = request_messages cfg (messages (cells c) @ [user_message (input (cells c))])"
    by (simp add: Fetch_in_start)
  then show "r1 = \<lparr>entry_role = ''system'', content = NEO_KUN_SYSTEM_PROMPT cfg\<rparr> #
           map (\<lambda>m. \<lparr>entry_role = (case role m of User \<Rightarrow> ''user'' | Model \<Rightarrow> ''assistant''),
                      content = text m\<rparr>)
               (messages (cells c) @ [user_message (input (cells c))])"
    by (simp add: request_messages_eq)
next
  assume "Fetch r2 \<in> set (emitted cfg (Sent k out) c)"
  then have "r2 = request_messages cfg (messages (closure (calls c ! k)) @
                  [user_message (input (closure (calls c ! k)))])"
    by (auto split: if_splits dest: Fetch_in_sent)
  then show "r2 = \<lparr>entry_role = ''system'', content = NEO_KUN_SYSTEM_PROMPT cfg\<rparr> #
           map (\<lambda>m. \<lparr>entry_role = (case role m of User \<Rightarrow> ''user'' | Model \<Rightarrow> ''assistant''),
                      content = text m\<rparr>)
               (messages (closure (calls c ! k)) @
                  [user_message (input (closure (calls c ! k)))])"
    by (simp add: request_messages_eq)
qed

text \<open>
  The theorem for a send in Backup mode after one earlier turn, running alone and as an
  event, and for the first of two overlapping sends when its Primary call rejects.
\<close>

theorem backup_request_is_prompt_then_closure_transcript_witness:
  "fst (handleSendMessage with_key both_down on_backup) =
     [SetInput [], AppendMessage (user_message ''more''), SetIsTyping True, SetIsBackupActive True] @
     Fetch [\<lparr>entry_role = ''system'', content = ''persona''\<rparr>,
            \<lparr>entry_role = ''user'', content = ''ping''\<rparr>,
            \<lparr>entry_role = ''assistant'', content = ''pong''\<rparr>,
            \<lparr>entry_role = ''user'', content = ''more''\<rparr>] #
     [AppendMessage (model_message glitch_text), SetIsTyping False] \<and>
   messages (apply_effects
      [SetInput [], AppendMessage (user_message ''more''), SetIsTyping True, SetIsBackupActive True]
      on_backup) = messages on_backup @ [user_message (input on_backup)] \<and>
   [\<lparr>entry_role = ''system'', content = ''persona''\<rparr>,
    \<lparr>entry_role = ''user'', content = ''ping''\<rparr>,
    \<lparr>entry_role = ''assistant'', content = ''pong''\<rparr>,
    \<lparr>entry_role = ''user'', content = ''more''\<rparr>] =
   \<lparr>entry_role = ''system'', content = NEO_KUN_SYSTEM_PROMPT with_key\<rparr> #
     map (\<lambda>m. \<lparr>entry_role = (case role m of User \<Rightarrow> ''user'' | Model \<Rightarrow> ''assistant''),
                content = text m\<rparr>)
         (messages (apply_effects
            [SetInput [], AppendMessage (user_message ''more''), SetIsTyping True,
             SetIsBackupActive True] on_backup)) \<and>
   Fetch [\<lparr>entry_role = ''system'', content = ''persona''\<rparr>,
          \<lparr>entry_role = ''user'', content = ''ping''\<rparr>,
          \<lparr>entry_role = ''assistant'', content = ''pong''\<rparr>,
          \<lparr>entry_role = ''user'', content = ''more''\<rparr>]
     \<in> set (emitted with_key (Submit True) \<lparr>cells = on_backup, calls = []\<rparr>) \<and>
   [\<lparr>entry_role = ''system'', content = ''persona''\<rparr>,
    \<lparr>entry_role = ''user'', content = ''ping''\<rparr>,
    \<lparr>entry_role = ''assistant'', content = ''pong''\<rparr>,
    \<lparr>entry_role = ''user'', content = ''more''\<rparr>] =
   \<lparr>entry_role = ''system'', content = NEO_KUN_SYSTEM_PROMPT with_key\<rparr> #
     map (\<lambda>m. \<lparr>entry_role = (case role m of User \<Rightarrow> ''user'' | Model \<Rightarrow> ''assistant''),
                content = text m\<rparr>)
         (messages (cells \<lparr>cells = on_backup, calls = []\<rparr>) @
            [user_message (input (cells \<lparr>cells = on_backup, calls = []\<rparr>))]) \<and>
   Fetch [\<lparr>entry_role = ''system'', content = ''persona''\<rparr>,
          \<lparr>entry_role = ''user'', content = ''a''\<rparr>]
     \<in> set (emitted with_key (Sent 0 SendRejected) two_pending) \<and>
   [\<lparr>entry_role = ''system'', content = ''persona''\<rparr>,
    \<lparr>entry_role = ''user'', content = ''a''\<rparr>] =
   \<lparr>entry_role = ''system'', content = NEO_KUN_SYSTEM_PROMPT with_key\<rparr> #
     map (\<lambda>m. \<lparr>entry_role = (case role m of User \<Rightarrow> ''user'' | Model \<Rightarrow> ''assistant''),
                content = text m\<rparr>)
         (messages (closure (calls two_pending ! 0)) @
            [user_message (input (closure (calls two_pending ! 0)))])"
proof -
  have h: "fst (handleSendMessage with_key both_down on_backup) =
     [SetInput [], AppendMessage (user_message ''more''), SetIsTyping True, SetIsBackupActive True] @
     Fetch [\<lparr>entry_role = ''system'', content = ''persona''\<rparr>,
            \<lparr>entry_role = ''user'', content = ''ping''\<rparr>,
            \<lparr>entry_role = ''assistant'', content = ''pong''\<rparr>,
            \<lparr>entry_role = ''user'', content = ''more''\<rparr>] #
     [AppendMessage (model_message glitch_text), SetIsTyping False]" by code_simp
  have s: "Fetch [\<lparr>entry_role = ''system'', content = ''persona''\<rparr>,
          \<lparr>entry_role = ''user'', content = ''ping''\<rparr>,
          \<lparr>entry_role = ''assistant'', content = ''pong''\<rparr>,
          \<lparr>entry_role = ''user'', content = ''more''\<rparr>]
     \<in> set (emitted with_key (Submit True) \<lparr>cells = on_backup, calls = []\<rparr>)" by code_simp
  have t: "Fetch [\<lparr>entry_role = ''system'', content = ''persona''\<rparr>,
          \<lparr>entry_role = ''user'', content = ''a''\<rparr>]
     \<in> set (emitted with_key (Sent 0 SendRejected) two_pending)" by code_simp
  from backup_request_is_prompt_then_closure_transcript[where cfg = with_key and w = both_down and st = on_backup
          and c = "\<lparr>cells = on_backup, calls = []\<rparr>" and ok = True]
       backup_request_is_prompt_then_closure_transcript[where cfg = with_key and c = two_pending and k = 0 and out = SendRejected]
       h s t
  show ?thesis by blast
qed

text \<open>
  C5 as stated fails when sends overlap: with the sends of "a" and "b" both pending the
  transcript is user a, user b, and when the Primary call of the first send rejects, its
  request to the Backup provider is the system prompt and user a only.
\<close>

theorem overlapped_request_misses_later_messages:
  "messages (cells two_pending) = [user_message ''a'', user_message ''b''] \<and>
   emitted with_key (Sent 0 SendRejected) two_pending =
     [SetIsBackupActive True,
      Fetch [\<lparr>entry_role = ''system'', content = ''persona''\<rparr>,
             \<lparr>entry_role = ''user'', content = ''a''\<rparr>]] \<and>
   request_messages with_key (messages (cells two_pending)) =
     [\<lparr>entry_role = ''system'', content = ''persona''\<rparr>,
      \<lparr>entry_role = ''user'', content = ''a''\<rparr>,
      \<lparr>entry_role = ''user'', content = ''b''\<rparr>]"
  by code_simp

subsection \<open>C6: the Primary API key is missing\<close>

text \<open>
  C6 (as amended). When \<^verbatim>\<open>process.env.API_KEY\<close> is not set, a send constructs no chat and
  calls no provider, and the handler returns normally; if the input is non-blank the only
  change is that the Assistant message "Error: API Key missing. Please check
  configuration." is appended to the transcript (the input box keeps its text and no User
  message is appended).
\<close>

theorem missing_key_appends_error_message:
  assumes "\<not> truthy (API_KEY cfg)"
  shows "filter is_provider_call (fst (handleSendMessage cfg w st)) = [] \<and>
         snd (handleSendMessage cfg w st) = Done (Inr ()) \<and>
         (trim (input st) \<noteq> [] \<longrightarrow>
            send cfg w st = st\<lparr>messages := messages st @ [model_message key_missing_text]\<rparr>)"
  using assms
  by (cases "trim (input st) = []")
     (simp_all add: handleSendMessage_blank handleSendMessage_no_key send_def)

text \<open>
  The theorem at the input "hello" without the key.
\<close>

theorem missing_key_appends_error_message_witness:
  "\<not> truthy (API_KEY without_key) \<and>
   filter is_provider_call (fst (handleSendMessage without_key both_down hello)) = [] \<and>
   snd (handleSendMessage without_key both_down hello) = Done (Inr ()) \<and>
   trim (input hello) \<noteq> [] \<and>
   send without_key both_down hello =
     hello\<lparr>messages := messages hello @ [model_message key_missing_text]\<rparr>"
proof -
  have h: "\<not> truthy (API_KEY without_key)" by code_simp
  have n: "trim (input hello) \<noteq> []" by code_simp
  from missing_key_appends_error_message[OF h, of both_down hello] h n show ?thesis by blast
qed

text \<open>
  C6 as stated fails: without the key a send of "hello" returns normally; the caller
  receives no error, the condition is written into the transcript instead.
\<close>

theorem missing_key_returns_normally:
  "\<not> truthy (API_KEY without_key) \<and> trim (input hello) \<noteq> [] \<and>
   handleSendMessage without_key both_down hello =
     ([AppendMessage (model_message key_missing_text)], Done (Inr ()))"
  by code_simp

subsection \<open>C7: feedback on an index that is out of range or on a User message\<close>

text \<open>
  C7 (as amended). \<^verbatim>\<open>handleFeedback\<close> never fails. With an index out of range (negative,
  or at least the length of the transcript) it leaves every cell unchanged. With an index
  in range it toggles the feedback of the message at that index, whatever the role of
  that message, and changes nothing else.
\<close>

theorem handleFeedback_never_fails: 
  "snd (handleFeedback index v) = Inr () \<and>
   (index < 0 \<or> int (length (messages st)) \<le> index \<longrightarrow> setFeedback index v st = st) \<and>
   (0 \<le> index \<and> index < int (length (messages st)) \<longrightarrow>
      setFeedback index v st =
        st\<lparr>messages := (messages st)[nat index :=
             (messages st ! nat index)\<lparr>feedback :=
                (if feedback (messages st ! nat index) = Some v then None else Some v)\<rparr>]\<rparr>)"
  by (simp add: handleFeedback_def setFeedback_eq feedback_updater_out_of_range feedback_updater_in_range)

text \<open>
  The theorem on a transcript of two messages, at index 2 (out of range) and at index 0.
\<close>

theorem handleFeedback_never_fails_witness:
  "((2::int) < 0 \<or> int (length (messages answered)) \<le> 2) \<and>
   snd (handleFeedback 2 Up) = Inr () \<and> setFeedback 2 Up answered = answered \<and>
   ((0::int) \<le> 0 \<and> 0 < int (length (messages answered))) \<and>
   setFeedback 0 Down answered =
     answered\<lparr>messages := (messages answered)[nat 0 :=
        (messages answered ! nat 0)\<lparr>feedback :=
           (if feedback (messages answered ! nat 0) = Some Down then None else Some Down)\<rparr>]\<rparr>"
proof -
  have a: "2 < (0::int) \<or> int (length (messages answered)) \<le> 2" by code_simp
  have b: "0 \<le> (0::int) \<and> 0 < int (length (messages answered))" by code_simp
  from handleFeedback_never_fails[of 2 Up answered] handleFeedback_never_fails[of 0 Down answered] a b show ?thesis by blast
qed

text \<open>
  C7 as stated fails: on a transcript of two messages a call at index 2 returns
  normally and changes nothing, and a call at index 0, a User message, returns normally and
  sets the feedback of that User message.
\<close>

theorem feedback_out_of_range_and_on_user_message:
  "handleFeedback 2 Up = ([MapFeedback 2 Up], Inr ()) \<and>
   setFeedback 2 Up answered = answered \<and>
   handleFeedback 0 Up = ([MapFeedback 0 Up], Inr ()) \<and>
   role (messages answered ! 0) = User \<and>
   messages (setFeedback 0 Up answered) =
     [(user_message ''ping'')\<lparr>feedback := Some Up\<rparr>, model_message ''pong'']"
  by code_simp

subsection \<open>C8: the feedback toggle\<close>

text \<open>
  C8 (as amended). For every index in range: on a message whose feedback is not already
  \<^verbatim>\<open>v\<close>, two calls with the same value \<^verbatim>\<open>v\<close> leave the feedback cleared; a call with
  \<^verbatim>\<open>v\<close> followed by a call with the other value leaves the other value; and after one call
  with \<^verbatim>\<open>v\<close> the feedback is cleared or is \<^verbatim>\<open>v\<close>, the single field holding at most one
  value.
\<close>

theorem feedback_toggle_law:
  assumes "i < length (messages st)"
  shows "(feedback (messages st ! i) \<noteq> Some v \<longrightarrow>
            feedback (messages (setFeedback (int i) v (setFeedback (int i) v st)) ! i) = None) \<and>
         (v \<noteq> w \<longrightarrow>
            feedback (messages (setFeedback (int i) w (setFeedback (int i) v st)) ! i) = Some w) \<and>
         feedback (messages (setFeedback (int i) v st) ! i) \<in> {None, Some v}"
  using assms
  by (simp add: messages_setFeedback feedback_updater_nth feedback_updater_length)

text \<open>
  The theorem at the Assistant message of a transcript of two messages, neither rated.
\<close>

theorem feedback_toggle_law_witness:
  "1 < length (messages answered) \<and> feedback (messages answered ! 1) \<noteq> Some Up \<and> Up \<noteq> Down \<and>
   feedback (messages (setFeedback (int 1) Up (setFeedback (int 1) Up answered)) ! 1) = None \<and>
   feedback (messages (setFeedback (int 1) Down (setFeedback (int 1) Up answered)) ! 1) = Some Down \<and>
   feedback (messages (setFeedback (int 1) Up answered) ! 1) \<in> {None, Some Up}"
proof -
  have h: "1 < length (messages answered)" by code_simp
  have a: "feedback (messages answered ! 1) \<noteq> Some Up" by code_simp
  have b: "Up \<noteq> Down" by simp
  from feedback_toggle_law[OF h, of Up Down] h a b show ?thesis by blast
qed

text \<open>
  C8 as stated fails on a message that is already rated Up: the first of two calls with
  Up clears the feedback and the second sets it again, so the message ends rated Up, not
  cleared.
\<close>

theorem double_toggle_restores_set_feedback:
  "0 < length (messages rated_up) \<and>
   feedback (messages (setFeedback 0 Up (setFeedback 0 Up rated_up)) ! 0) = Some Up"
  by code_simp

subsection \<open>C9: blank input\<close>

text \<open>
  C9. A send whose input is empty after trimming performs no effect at all: nothing is
  appended, no chat is constructed, no provider is called, and every cell is unchanged.
\<close>

theorem blank_input_is_noop:
  assumes "trim (input st) = []"
  shows "handleSendMessage cfg w st = ([], Done (Inr ())) \<and> send cfg w st = st"
  using assms
  by (simp add: send_def handleSendMessage_def handleSendMessage_start_def
                resume_sendMessage_def resume_fetch_def)

text \<open>
  The theorem at an input of three spaces.
\<close>

theorem blank_input_is_noop_witness:
  "trim (input blank) = [] \<and>
   handleSendMessage with_key (primary_up (Some ''pong'')) blank = ([], Done (Inr ())) \<and>
   send with_key (primary_up (Some ''pong'')) blank = blank"
proof -
  have h: "trim (input blank) = []" by code_simp
  from blank_input_is_noop[OF h] h show ?thesis by blast
qed

subsection \<open>C10: a provider answers without text\<close>

text \<open>
  C10 (as amended). In a send with non-blank input and the key set: if the Primary
  provider is called and resolves with an undefined or empty text, the Assistant message
  with the empty text is appended after the User message, the component stays on the
  Primary provider, the Backup provider is not called and the handler returns normally.
  If the Backup provider is called and answers 200 with a JSON value other than
  \<^verbatim>\<open>null\<close> that has no \<^verbatim>\<open>choices\<close>, an empty \<^verbatim>\<open>choices\<close>, a first choice without
  \<^verbatim>\<open>message\<close>, or a message without content or with empty content, the Assistant message
  with the empty text is appended after the User message, not the message about a double
  failure, and the handler returns normally. If the JSON value is \<^verbatim>\<open>null\<close>, reading
  \<^verbatim>\<open>data.choices\<close> throws and the turn ends as a Backup failure: the glitch message is
  appended.
\<close>

theorem empty_response_is_success:
  assumes "trim (input st) \<noteq> []" and "truthy (API_KEY cfg)"
  shows "(\<not> isBackupActive st \<and> (createOk w \<or> chatClient st \<noteq> None) \<and>
          (sendMessage w = SendResolved None \<or> sendMessage w = SendResolved (Some [])) \<longrightarrow>
            messages (send cfg w st) = messages st @ [user_message (input st), model_message []] \<and>
            \<not> isBackupActive (send cfg w st) \<and>
            backup_calls (fst (handleSendMessage cfg w st)) = 0 \<and>
            snd (handleSendMessage cfg w st) = Done (Inr ())) \<and>
         ((isBackupActive st \<or> primary_fails w st) \<and>
          fetch w = Response True (JsonResolved d) \<and> no_content d \<longrightarrow>
            messages (send cfg w st) = messages st @ [user_message (input st), model_message []] \<and>
            snd (handleSendMessage cfg w st) = Done (Inr ())) \<and>
         ((isBackupActive st \<or> primary_fails w st) \<and>
          fetch w = Response True (JsonResolved OrNull) \<longrightarrow>
            messages (send cfg w st) =
              messages st @ [user_message (input st), model_message glitch_text] \<and>
            snd (handleSendMessage cfg w st) = Done (Inr ()))"
proof (intro conjI impI)
  assume h: "\<not> isBackupActive st \<and> (createOk w \<or> chatClient st \<noteq> None) \<and>
          (sendMessage w = SendResolved None \<or> sendMessage w = SendResolved (Some []))"
  then show "messages (send cfg w st) = messages st @ [user_message (input st), model_message []]"
    using assms by (auto simp: messages_send)
  from h show "\<not> isBackupActive (send cfg w st)"
    using assms by (auto simp: isBackupActive_send)
  have "\<forall>e\<in>set (snd (recreate_chat (createOk w) st)). \<not> is_Fetch e"
    by (auto dest: recreate_chat_no_Fetch)
  with h show "backup_calls (fst (handleSendMessage cfg w st)) = 0"
    using assms by (auto simp: handleSendMessage_trace backup_calls_def recreate_chat_None)
next
  assume h: "(isBackupActive st \<or> primary_fails w st) \<and>
          fetch w = Response True (JsonResolved d) \<and> no_content d"
  with no_content_result[of d] have "callOpenRouter_result (fetch w) = Inr []" by simp
  with h show "messages (send cfg w st) = messages st @ [user_message (input st), model_message []]"
    using assms by (auto simp: messages_send primary_fails_def)
next
  assume h: "(isBackupActive st \<or> primary_fails w st) \<and>
          fetch w = Response True (JsonResolved OrNull)"
  then show "messages (send cfg w st) =
              messages st @ [user_message (input st), model_message glitch_text]"
    using assms by (auto simp: messages_send primary_fails_def)
qed (rule handleSendMessage_returns)+

text \<open>
  The theorem at the input "hello": the Primary provider resolving without text; the
  Primary provider rejecting and the Backup JSON having an empty \<^verbatim>\<open>choices\<close>; the
  Primary provider rejecting and the Backup JSON being \<^verbatim>\<open>null\<close>.
\<close>

theorem empty_response_is_success_witness:
  "(trim (input hello) \<noteq> [] \<and> truthy (API_KEY with_key)) \<and>
   (\<not> isBackupActive hello \<and> (createOk (primary_up None) \<or> chatClient hello \<noteq> None) \<and>
    (sendMessage (primary_up None) = SendResolved None \<or>
     sendMessage (primary_up None) = SendResolved (Some []))) \<and>
   messages (send with_key (primary_up None) hello) =
     messages hello @ [user_message (input hello), model_message []] \<and>
   \<not> isBackupActive (send with_key (primary_up None) hello) \<and>
   backup_calls (fst (handleSendMessage with_key (primary_up None) hello)) = 0 \<and>
   snd (handleSendMessage with_key (primary_up None) hello) = Done (Inr ()) \<and>
   ((isBackupActive hello \<or> primary_fails (backup_up (OrData (Some []))) hello) \<and>
    fetch (backup_up (OrData (Some []))) = Response True (JsonResolved (OrData (Some []))) \<and>
    no_content (OrData (Some []))) \<and>
   messages (send with_key (backup_up (OrData (Some []))) hello) =
     messages hello @ [user_message (input hello), model_message []] \<and>
   snd (handleSendMessage with_key (backup_up (OrData (Some []))) hello) = Done (Inr ()) \<and>
   ((isBackupActive hello \<or> primary_fails (backup_up OrNull) hello) \<and>
    fetch (backup_up OrNull) = Response True (JsonResolved OrNull)) \<and>
   messages (send with_key (backup_up OrNull) hello) =
     messages hello @ [user_message (input hello), model_message glitch_text] \<and>
   snd (handleSendMessage with_key (backup_up OrNull) hello) = Done (Inr ())"
proof -
  have h1: "trim (input hello) \<noteq> []" by code_simp
  have h2: "truthy (API_KEY with_key)" by code_simp
  have a: "\<not> isBackupActive hello \<and> (createOk (primary_up None) \<or> chatClient hello \<noteq> None) \<and>
    (sendMessage (primary_up None) = SendResolved None \<or>
     sendMessage (primary_up None) = SendResolved (Some []))" by code_simp
  have b: "(isBackupActive hello \<or> primary_fails (backup_up (OrData (Some []))) hello) \<and>
    fetch (backup_up (OrData (Some []))) = Response True (JsonResolved (OrData (Some []))) \<and>
    no_content (OrData (Some []))" by code_simp
  have c: "(isBackupActive hello \<or> primary_fails (backup_up OrNull) hello) \<and>
    fetch (backup_up OrNull) = Response True (JsonResolved OrNull)" by code_simp
  from empty_response_is_success[OF h1 h2, of "primary_up None" "OrData (Some [])"]
       empty_response_is_success[OF h1 h2, of "backup_up (OrData (Some []))" "OrData (Some [])"]
       empty_response_is_success[OF h1 h2, of "backup_up OrNull" "OrData (Some [])"] h1 h2 a b c
  show ?thesis by blast
qed

text \<open>
  C10 as stated fails for a Backup response whose JSON is \<^verbatim>\<open>null\<close>: it carries no
  choices and no content, yet the send appends the glitch message, not an empty Assistant
  message.
\<close>

theorem null_body_is_backup_failure:
  "trim (input hello) \<noteq> [] \<and> truthy (API_KEY with_key) \<and>
   fetch (backup_up OrNull) = Response True (JsonResolved OrNull) \<and>
   filter is_Fetch (fst (handleSendMessage with_key (backup_up OrNull) hello)) =
     [Fetch [\<lparr>entry_role = ''system'', content = ''persona''\<rparr>,
             \<lparr>entry_role = ''user'', content = ''hello''\<rparr>]] \<and>
   messages (send with_key (backup_up OrNull) hello) =
     [user_message ''hello'', model_message glitch_text]"
  by code_simp

end
